theory Spec2Isabelle
  imports Main "HOL-Library.AList"
begin

section \<open>Python values used by the analyzer\<close>

text \<open>
  AST nodes are compared and hashed by object identity.  A node is therefore
  represented by a natural number (its identity); two occurrences of the same
  number in a tree are two references to the same node object.
\<close>

type_synonym nid = nat
type_synonym ident = string

datatype pyerror =
  IndexError | KeyError | AttributeError | AssertionError | NotImplementedError | StopIteration
  | TypeError

subsection \<open>The class \<open>_ordered_set\<close>\<close>

text \<open>
  An ordered set is an insertion-ordered dictionary whose values are ignored; its
  contents are the list of its keys.  The module \<open>ordered_set\<close> imported for
  Python 3.6 and later is interchangeable with the class \<open>_ordered_set\<close> of
  the source, which is the one embedded here.
\<close>

definition oset_add :: "'a \<Rightarrow> 'a list \<Rightarrow> 'a list" where
  "oset_add v vs = (if v \<in> set vs then vs else vs @ [v])"

definition oset_update :: "'a list \<Rightarrow> 'a list \<Rightarrow> 'a list" where
  "oset_update vs new = foldl (\<lambda>acc v. oset_add v acc) vs new"

definition ordered_set :: "'a list \<Rightarrow> 'a list" where
  "ordered_set elements = oset_update [] elements"

definition oset_plus :: "'a list \<Rightarrow> 'a list \<Rightarrow> 'a list" where
  "oset_plus a b = oset_update a b"

subsection \<open>List indexing and slicing\<close>

definition py_index :: "'a list \<Rightarrow> int \<Rightarrow> pyerror + 'a" where
  "py_index xs i =
     (if 0 \<le> i \<and> i < int (length xs) then Inr (xs ! nat i)
      else if i < 0 \<and> - i \<le> int (length xs) then Inr (xs ! nat (int (length xs) + i))
      else Inl IndexError)"

definition py_slice :: "'a list \<Rightarrow> int option \<Rightarrow> int option \<Rightarrow> 'a list" where
  "py_slice xs lo hi =
     (let n = int (length xs);
          norm = (\<lambda>i. if i < 0 then max 0 (n + i) else min n i);
          a = (case lo of None \<Rightarrow> 0 | Some i \<Rightarrow> norm i);
          b = (case hi of None \<Rightarrow> n | Some i \<Rightarrow> norm i)
      in take (nat (b - a)) (drop (nat a) xs))"

text \<open>\<open>name.split(".", 1)[0]\<close>\<close>

definition split_base :: "string \<Rightarrow> string" where
  "split_base name = takeWhile (\<lambda>c. c \<noteq> CHR ''.'') name"

section \<open>The abstract syntax tree\<close>

datatype expr_context = Load | Store | Del | AugLoad | AugStore | Param

datatype expr =
    BoolOp nid "expr list"
  | NamedExpr nid expr expr
  | BinOp nid expr expr
  | UnaryOp nid expr
  | Lambda nid arguments expr
  | IfExp nid expr expr expr
  | Dict nid "expr option list" "expr list"
  | Set nid "expr list"
  | ListComp nid expr "comprehension list"
  | SetComp nid expr "comprehension list"
  | DictComp nid expr expr "comprehension list"
  | GeneratorExp nid expr "comprehension list"
  | Await nid expr
  | Yield nid "expr option"
  | YieldFrom nid expr
  | Compare nid expr "expr list"
  | Call nid expr "expr list" "keyword list"
  | Repr nid expr
  | FormattedValue nid expr "expr option"
  | JoinedStr nid "expr list"
  | Constant nid
  | Attribute nid expr ident expr_context
  | Subscript nid expr expr expr_context
  | Starred nid expr expr_context
  | Name nid ident expr_context "expr option"
  | List nid "expr list" expr_context
  | Tuple nid "expr list" expr_context
  | Slice nid "expr option" "expr option" "expr option"
and comprehension = comprehension nid expr expr "expr list"
and arguments =
    arguments "expr list" "expr list" "expr option" "expr list" "expr option list"
      "expr option" "expr list"
and keyword = keyword "ident option" expr

datatype import_alias = Alias nid ident "ident option"

datatype withitem = withitem nid expr "expr option"

datatype stmt =
    FunctionDef nid ident arguments "stmt list" "expr list" "expr option"
  | AsyncFunctionDef nid ident arguments "stmt list" "expr list" "expr option"
  | ClassDef nid ident "expr list" "keyword list" "stmt list" "expr list"
  | Return nid "expr option"
  | Delete nid "expr list"
  | Assign nid "expr list" expr
  | AugAssign nid expr expr
  | AnnAssign nid expr expr "expr option"
  | Print nid "expr option" "expr list"
  | For nid expr expr "stmt list" "stmt list"
  | AsyncFor nid expr expr "stmt list" "stmt list"
  | While nid expr "stmt list" "stmt list"
  | If nid expr "stmt list" "stmt list"
  | With nid "withitem list" "stmt list"
  | AsyncWith nid "withitem list" "stmt list"
  | Raise nid "expr option" "expr option"
  | Try nid "stmt list" "excepthandler list" "stmt list" "stmt list"
  | Assert nid expr "expr option"
  | Import nid "import_alias list"
  | ImportFrom nid "import_alias list"
  | Exec nid expr "expr option" "expr option"
  | Global nid "ident list"
  | Nonlocal nid "ident list"
  | Expr nid expr
  | Pass nid
  | Break nid
  | Continue nid
and excepthandler = excepthandler nid "expr option" "expr option" "stmt list"

datatype module_node = Module nid "stmt list"


section \<open>Definition records and the analyzer state\<close>

text \<open>
  The \<open>node\<close> attribute of a \<open>Def\<close>: an AST node (its identity together with
  what \<open>Def.name\<close> and the \<open>isinstance\<close> tests read from it), the string
  wrapped by a synthetic \<open>Def\<close>, or the value of a builtin (its key in the
  builtins table and the name of its type).
\<close>

datatype node_info =
    IFunctionDef ident
  | IClassDef ident
  | IName ident
  | IAlias ident "ident option"
  | IOther string

datatype node_ref =
    NodeRef nid node_info
  | StrValue string
  | BuiltinValue ident string

datatype scope_kind = SModule | SFunction | SClass | SLambda | SComp

type_synonym scope_node = "nid \<times> scope_kind"

text \<open>
  The argument \<open>dnode_or_dnodes\<close> of \<open>set_definition\<close> and
  \<open>add_to_definition\<close>: a single \<open>Def\<close> or an iterable of them.
\<close>

datatype dnodes = One nat | Many "nat list"

text \<open>An entry of \<open>_defered\<close>.\<close>

datatype defered_node = DStmt stmt | DExpr expr

datatype defered_entry =
  Defered defered_node "nat list" "scope_node list" "int list" "ident set list"

text \<open>
  \<open>Def\<close> objects, ordered sets and definition layers (the
  \<open>defaultdict(ordered_set)\<close> dictionaries) are mutable objects that are shared
  between several containers: a layer copy shares the ordered sets of the
  original, and a deferred function keeps references to the layers that were on
  the stack when it was declared.  Each kind of object lives in a store indexed
  by natural numbers; \<open>ndefs\<close>, \<open>nosets\<close> and \<open>nlayers\<close> are the next free
  addresses.  \<open>locals\<close> is a \<open>defaultdict(list)\<close> that is only ever indexed,
  hence a total function with default \<open>[]\<close>.  \<open>warnings\<close> collects the calls
  of \<open>unbound_identifier\<close> (the printed diagnostics).
\<close>

record analyzer =
  def_node :: "nat \<Rightarrow> node_ref"
  def_users :: "nat \<Rightarrow> nat list"
  ndefs :: nat
  oset_at :: "nat \<Rightarrow> nat list"
  nosets :: nat
  layer :: "nat \<Rightarrow> (ident \<times> nat) list"
  nlayers :: nat
  chains :: "(nid \<times> nat) list"
  locals :: "nid \<Rightarrow> nat list"
  module :: "nid option"
  builtins :: "(ident \<times> nat) list"
  defered :: "defered_entry list"
  definitions :: "nat list"
  scope_depths :: "int list"
  globals :: "ident set list"
  precomputed_locals :: "ident set list"
  undefs :: "(ident \<times> (nat \<times> nat list) list) list list"
  scopes :: "scope_node list"
  breaks :: "nat list"
  continues :: "nat list"
  deadcode :: int
  warnings :: "(ident \<times> node_ref) list"

subsection \<open>The state and exception monad\<close>

type_synonym 'a M = "analyzer \<Rightarrow> pyerror + 'a \<times> analyzer"

definition ret :: "'a \<Rightarrow> 'a M" where
  "ret x s = Inr (x, s)"

definition bnd :: "'a M \<Rightarrow> ('a \<Rightarrow> 'b M) \<Rightarrow> 'b M" where
  "bnd m f s = (case m s of Inl e \<Rightarrow> Inl e | Inr (x, s') \<Rightarrow> f x s')"

definition raise :: "pyerror \<Rightarrow> 'a M" where
  "raise e s = Inl e"

definition gets :: "(analyzer \<Rightarrow> 'a) \<Rightarrow> 'a M" where
  "gets f s = Inr (f s, s)"

definition modify :: "(analyzer \<Rightarrow> analyzer) \<Rightarrow> unit M" where
  "modify f s = Inr ((), f s)"

definition lift :: "pyerror + 'a \<Rightarrow> 'a M" where
  "lift r \<sigma> = (case r of Inl e \<Rightarrow> raise e | Inr x \<Rightarrow> ret x) \<sigma>"

text \<open>\<open>for x in xs: f(x)\<close>\<close>

fun forM :: "'a list \<Rightarrow> ('a \<Rightarrow> 'b M) \<Rightarrow> unit M" where
  "forM [] f = ret ()"
| "forM (x # xs) f = bnd (f x) (\<lambda>_. forM xs f)"

text \<open>A sequence of statements.\<close>

fun seqM :: "unit M list \<Rightarrow> unit M" where
  "seqM [] = ret ()"
| "seqM (m # ms) = bnd m (\<lambda>_. seqM ms)"

definition whenM :: "bool \<Rightarrow> unit M \<Rightarrow> unit M" where
  "whenM b m \<sigma> = (if b then m else ret ()) \<sigma>"

definition ignore :: "'a M \<Rightarrow> unit M" where
  "ignore m \<sigma> = bnd m (\<lambda>_. ret ()) \<sigma>"

subsection \<open>\<open>Def\<close>\<close>

definition new_Def :: "node_ref \<Rightarrow> nat M" where
  "new_Def n s =
     Inr (ndefs s,
     s\<lparr>def_node := (def_node s)(ndefs s := n),
       def_users := (def_users s)(ndefs s := []),
       ndefs := Suc (ndefs s)\<rparr>)"

definition add_user :: "nat \<Rightarrow> nat \<Rightarrow> unit M" where
  "add_user d u \<sigma> = modify (\<lambda>s. s\<lparr>def_users := (def_users s)(d := oset_add u (def_users s d))\<rparr>) \<sigma>"

text \<open>
  \<open>visit(x).add_user(dnode)\<close>: a visitor that returned \<open>None\<close> makes the
  attribute access fail.
\<close>

definition add_user_opt :: "nat option \<Rightarrow> nat \<Rightarrow> unit M" where
  "add_user_opt r u \<sigma> = (case r of None \<Rightarrow> raise AttributeError | Some d \<Rightarrow> add_user d u) \<sigma>"

definition info_name :: "node_info \<Rightarrow> string" where
  "info_name i = (case i of
       IFunctionDef n \<Rightarrow> n
     | IClassDef n \<Rightarrow> n
     | IName n \<Rightarrow> n
     | IAlias n asname \<Rightarrow> (case asname of Some a \<Rightarrow> (if a = [] then split_base n else a)
                                         | None \<Rightarrow> split_base n)
     | IOther t \<Rightarrow> t)"

definition Def_name :: "node_ref \<Rightarrow> string" where
  "Def_name r = (case r of
       NodeRef _ i \<Rightarrow> info_name i
     | StrValue _ \<Rightarrow> ''str''
     | BuiltinValue _ t \<Rightarrow> t)"

text \<open>
  \<open>self.chains.setdefault(node, Def(node))\<close>.  The \<open>Def\<close> built for an
  already present key is dropped at once and is not allocated here.
\<close>

definition chains_setdefault :: "nid \<Rightarrow> node_info \<Rightarrow> nat M" where
  "chains_setdefault n i s =
     (case map_of (chains s) n of
       Some d \<Rightarrow> Inr (d, s)
     | None \<Rightarrow> bnd (new_Def (NodeRef n i))
         (\<lambda>d. bnd (modify (\<lambda>s. s\<lparr>chains := AList.update n d (chains s)\<rparr>)) (\<lambda>_. ret d)) s)"

subsection \<open>Ordered sets and layers in the store\<close>

definition new_oset :: "nat list \<Rightarrow> nat M" where
  "new_oset vs s =
     Inr (nosets s,
     s\<lparr>oset_at := (oset_at s)(nosets s := vs), nosets := Suc (nosets s)\<rparr>)"

definition new_layer :: "(ident \<times> nat) list \<Rightarrow> nat M" where
  "new_layer kvs s =
     Inr (nlayers s,
     s\<lparr>layer := (layer s)(nlayers s := kvs), nlayers := Suc (nlayers s)\<rparr>)"

text \<open>\<open>d.copy()\<close>: a new dictionary holding the same ordered-set objects.\<close>

definition layer_copy :: "nat \<Rightarrow> nat M" where
  "layer_copy l \<sigma> = bnd (gets (\<lambda>s. layer s l)) new_layer \<sigma>"

text \<open>\<open>d[name]\<close> on a \<open>defaultdict(ordered_set)\<close>: a missing key is created.\<close>

definition layer_getitem :: "nat \<Rightarrow> ident \<Rightarrow> nat M" where
  "layer_getitem l name s =
     (case map_of (layer s l) name of
       Some os \<Rightarrow> Inr (os, s)
     | None \<Rightarrow> bnd (new_oset [])
         (\<lambda>os. bnd (modify (\<lambda>s. s\<lparr>layer := (layer s)(l := AList.update name os (layer s l))\<rparr>))
           (\<lambda>_. ret os)) s)"

definition layer_setitem :: "nat \<Rightarrow> ident \<Rightarrow> nat \<Rightarrow> unit M" where
  "layer_setitem l name os \<sigma> =
     modify (\<lambda>s. s\<lparr>layer := (layer s)(l := AList.update name os (layer s l))\<rparr>) \<sigma>"

definition layer_clear :: "nat \<Rightarrow> unit M" where
  "layer_clear l \<sigma> = modify (\<lambda>s. s\<lparr>layer := (layer s)(l := [])\<rparr>) \<sigma>"

definition has_key :: "'k \<Rightarrow> ('k \<times> 'v) list \<Rightarrow> bool" where
  "has_key k d = (map_of d k \<noteq> None)"

text \<open>The contents of a \<open>dnode_or_dnodes\<close> argument, in iteration order.\<close>

definition dnodes_list :: "dnodes \<Rightarrow> nat list" where
  "dnodes_list ds = (case ds of One d \<Rightarrow> [d] | Many xs \<Rightarrow> xs)"

definition oset_add_to :: "nat \<Rightarrow> dnodes \<Rightarrow> unit M" where
  "oset_add_to os ds \<sigma> = modify (\<lambda>s. s\<lparr>oset_at := (oset_at s)(os :=
     (case ds of One d \<Rightarrow> oset_add d (oset_at s os) | Many xs \<Rightarrow> oset_update (oset_at s os) xs))\<rparr>) \<sigma>"

definition add_to_definition :: "nat \<Rightarrow> ident \<Rightarrow> dnodes \<Rightarrow> unit M" where
  "add_to_definition definition name dnode_or_dnodes \<sigma> =
     bnd (layer_getitem definition name) (\<lambda>os. oset_add_to os dnode_or_dnodes) \<sigma>"

text \<open>\<open>xs[-1]\<close> and \<open>xs[0]\<close> on the stacks of the analyzer.\<close>

definition top_of :: "(analyzer \<Rightarrow> 'a list) \<Rightarrow> 'a M" where
  "top_of stack \<sigma> = bnd (gets stack) (\<lambda>xs. lift (py_index xs (-1))) \<sigma>"

definition bottom_of :: "(analyzer \<Rightarrow> 'a list) \<Rightarrow> 'a M" where
  "bottom_of stack \<sigma> = bnd (gets stack) (\<lambda>xs. lift (py_index xs 0)) \<sigma>"

definition set_definition :: "ident \<Rightarrow> dnodes \<Rightarrow> unit M" where
  "set_definition name dnode_or_dnodes \<sigma> =
     bnd (gets deadcode) (\<lambda>dc.
       if dc \<noteq> 0 then ret ()
       else bnd (new_oset (ordered_set (dnodes_list dnode_or_dnodes))) (\<lambda>os.
            bnd (top_of definitions) (\<lambda>l. layer_setitem l name os))) \<sigma>"

definition extend_definition :: "ident \<Rightarrow> dnodes \<Rightarrow> unit M" where
  "extend_definition name dnode_or_dnodes \<sigma> =
     bnd (gets deadcode) (\<lambda>dc.
       if dc \<noteq> 0 then ret ()
       else bnd (top_of definitions) (\<lambda>l. add_to_definition l name dnode_or_dnodes)) \<sigma>"

definition extend_global :: "ident \<Rightarrow> dnodes \<Rightarrow> unit M" where
  "extend_global name dnode_or_dnodes \<sigma> =
     bnd (gets deadcode) (\<lambda>dc.
       if dc \<noteq> 0 then ret ()
       else bnd (bottom_of definitions) (\<lambda>l. add_to_definition l name dnode_or_dnodes)) \<sigma>"

definition locals_append :: "nid \<Rightarrow> nat \<Rightarrow> unit M" where
  "locals_append scope d \<sigma> = modify (\<lambda>s. s\<lparr>locals := (locals s)(scope := locals s scope @ [d])\<rparr>) \<sigma>"

definition get_module :: "nid M" where
  "get_module \<sigma> = bnd (gets module) (\<lambda>m. case m of None \<Rightarrow> raise AttributeError | Some n \<Rightarrow> ret n) \<sigma>"

definition set_or_extend_global :: "ident \<Rightarrow> nat \<Rightarrow> unit M" where
  "set_or_extend_global name dnode \<sigma> =
     bnd (gets deadcode) (\<lambda>dc.
       if dc \<noteq> 0 then ret ()
       else bnd (bottom_of definitions) (\<lambda>l0.
            bnd (gets (\<lambda>s. has_key name (layer s l0))) (\<lambda>present.
            bnd (whenM (\<not> present) (bnd get_module (\<lambda>m. locals_append m dnode))) (\<lambda>_.
            bnd (bottom_of definitions) (\<lambda>l. add_to_definition l name (One dnode)))))) \<sigma>"

text \<open>
  \<open>for d, u in layer.items(): self.extend_definition(d, u)\<close>: the keys and the
  ordered-set objects are those of the dictionary when the loop starts; the
  contents of each ordered set are read when it is passed on.
\<close>

definition layer_items :: "nat \<Rightarrow> (ident \<times> nat) list M" where
  "layer_items l \<sigma> = gets (\<lambda>s. layer s l) \<sigma>"

definition oset_contents :: "nat \<Rightarrow> nat list M" where
  "oset_contents os \<sigma> = gets (\<lambda>s. oset_at s os) \<sigma>"

definition extend_definition_from :: "nat \<Rightarrow> unit M" where
  "extend_definition_from l \<sigma> =
     bnd (layer_items l) (\<lambda>items.
       forM items (\<lambda>(d, u). bnd (oset_contents u) (\<lambda>vs. extend_definition d (Many vs)))) \<sigma>"

definition unbound_identifier :: "ident \<Rightarrow> node_ref \<Rightarrow> unit M" where
  "unbound_identifier name node \<sigma> = modify (\<lambda>s. s\<lparr>warnings := warnings s @ [(name, node)]\<rparr>) \<sigma>"


section \<open>\<open>CollectLocals\<close>\<close>

text \<open>
  The visitor state is the pair \<open>(Locals, NonLocals)\<close>.  Nodes without a
  \<open>visit_\<close> method are traversed by \<open>generic_visit\<close>, field by field;
  lambdas and comprehensions are skipped, function and class definitions only
  contribute their name.
\<close>

type_synonym cl_state = "ident set \<times> ident set"

definition cl_opt :: "('a \<Rightarrow> cl_state \<Rightarrow> cl_state) \<Rightarrow> 'a option \<Rightarrow> cl_state \<Rightarrow> cl_state" where
  "cl_opt f x st = (case x of None \<Rightarrow> st | Some y \<Rightarrow> f y st)"

lemma cl_opt_cong [fundef_cong]:
  "x = y \<Longrightarrow> (\<And>z. y = Some z \<Longrightarrow> f z = g z) \<Longrightarrow> cl_opt f x = cl_opt g y"
  by (auto simp: cl_opt_def fun_eq_iff split: option.splits)

fun cl_expr :: "expr \<Rightarrow> cl_state \<Rightarrow> cl_state"
  and cl_comprehension :: "comprehension \<Rightarrow> cl_state \<Rightarrow> cl_state"
  and cl_arguments :: "arguments \<Rightarrow> cl_state \<Rightarrow> cl_state"
  and cl_keyword :: "keyword \<Rightarrow> cl_state \<Rightarrow> cl_state" where
  "cl_expr (BoolOp n vs) st = fold cl_expr vs st"
| "cl_expr (NamedExpr n target v) st = cl_expr v (cl_expr target st)"
| "cl_expr (BinOp n l r) st = cl_expr r (cl_expr l st)"
| "cl_expr (UnaryOp n operand) st = cl_expr operand st"
| "cl_expr (Lambda n args body) st = st"
| "cl_expr (IfExp n test body orelse) st = cl_expr orelse (cl_expr body (cl_expr test st))"
| "cl_expr (Dict n keys vs) st = fold cl_expr vs (fold (cl_opt cl_expr) keys st)"
| "cl_expr (Set n elts) st = fold cl_expr elts st"
| "cl_expr (ListComp n elt gens) st = st"
| "cl_expr (SetComp n elt gens) st = st"
| "cl_expr (DictComp n k v gens) st = st"
| "cl_expr (GeneratorExp n elt gens) st = st"
| "cl_expr (Await n v) st = cl_expr v st"
| "cl_expr (Yield n v) st = cl_opt cl_expr v st"
| "cl_expr (YieldFrom n v) st = cl_expr v st"
| "cl_expr (Compare n l comparators) st = fold cl_expr comparators (cl_expr l st)"
| "cl_expr (Call n func args keywords) st =
     fold cl_keyword keywords (fold cl_expr args (cl_expr func st))"
| "cl_expr (Repr n v) st = cl_expr v st"
| "cl_expr (FormattedValue n v format_spec) st = cl_opt cl_expr format_spec (cl_expr v st)"
| "cl_expr (JoinedStr n vs) st = fold cl_expr vs st"
| "cl_expr (Constant n) st = st"
| "cl_expr (Attribute n v attr ctx) st = cl_expr v st"
| "cl_expr (Subscript n v slice ctx) st = cl_expr slice (cl_expr v st)"
| "cl_expr (Starred n v ctx) st = cl_expr v st"
| "cl_expr (Name n id' ctx annotation) st =
     (if ctx = Store \<and> id' \<notin> snd st then (insert id' (fst st), snd st) else st)"
| "cl_expr (List n elts ctx) st = fold cl_expr elts st"
| "cl_expr (Tuple n elts ctx) st = fold cl_expr elts st"
| "cl_expr (Slice n lower upper step) st =
     cl_opt cl_expr step (cl_opt cl_expr upper (cl_opt cl_expr lower st))"
| "cl_comprehension (comprehension n target iter ifs) st =
     fold cl_expr ifs (cl_expr iter (cl_expr target st))"
| "cl_arguments (arguments args posonlyargs vararg kwonlyargs kw_defaults kwarg defaults) st =
     fold cl_expr defaults (cl_opt cl_expr kwarg (fold (cl_opt cl_expr) kw_defaults
       (fold cl_expr kwonlyargs (cl_opt cl_expr vararg
         (fold cl_expr posonlyargs (fold cl_expr args st))))))"
| "cl_keyword (keyword arg v) st = cl_expr v st"

definition alias_name :: "import_alias \<Rightarrow> ident \<Rightarrow> ident" where
  "alias_name a base = (case a of Alias n name asname \<Rightarrow>
     (case asname of None \<Rightarrow> base | Some x \<Rightarrow> if x = [] then base else x))"

definition alias_base :: "import_alias \<Rightarrow> ident" where
  "alias_base a = (case a of Alias n name asname \<Rightarrow> split_base name)"

definition alias_full :: "import_alias \<Rightarrow> ident" where
  "alias_full a = (case a of Alias n name asname \<Rightarrow> name)"

definition cl_withitem :: "withitem \<Rightarrow> cl_state \<Rightarrow> cl_state" where
  "cl_withitem w st = (case w of withitem n context_expr optional_vars \<Rightarrow>
     cl_opt cl_expr optional_vars (cl_expr context_expr st))"

definition cl_add_local :: "ident \<Rightarrow> cl_state \<Rightarrow> cl_state" where
  "cl_add_local name st = (insert name (fst st), snd st)"

definition cl_add_nonlocals :: "ident list \<Rightarrow> cl_state \<Rightarrow> cl_state" where
  "cl_add_nonlocals names st = (fst st, snd st \<union> set names)"

fun cl_stmt :: "stmt \<Rightarrow> cl_state \<Rightarrow> cl_state"
  and cl_excepthandler :: "excepthandler \<Rightarrow> cl_state \<Rightarrow> cl_state" where
  "cl_stmt (FunctionDef n name args body decorator_list returns) st = cl_add_local name st"
| "cl_stmt (AsyncFunctionDef n name args body decorator_list returns) st = cl_add_local name st"
| "cl_stmt (ClassDef n name bases keywords body decorator_list) st = cl_add_local name st"
| "cl_stmt (Return n v) st = cl_opt cl_expr v st"
| "cl_stmt (Delete n targets) st = fold cl_expr targets st"
| "cl_stmt (Assign n targets v) st = cl_expr v (fold cl_expr targets st)"
| "cl_stmt (AugAssign n target v) st = cl_expr v (cl_expr target st)"
| "cl_stmt (AnnAssign n target annotation v) st =
     cl_opt cl_expr v (cl_expr annotation (cl_expr target st))"
| "cl_stmt (Print n dest vs) st = fold cl_expr vs (cl_opt cl_expr dest st)"
| "cl_stmt (For n target iter body orelse) st =
     fold cl_stmt orelse (fold cl_stmt body (cl_expr iter (cl_expr target st)))"
| "cl_stmt (AsyncFor n target iter body orelse) st =
     fold cl_stmt orelse (fold cl_stmt body (cl_expr iter (cl_expr target st)))"
| "cl_stmt (While n test body orelse) st =
     fold cl_stmt orelse (fold cl_stmt body (cl_expr test st))"
| "cl_stmt (If n test body orelse) st =
     fold cl_stmt orelse (fold cl_stmt body (cl_expr test st))"
| "cl_stmt (With n items body) st = fold cl_stmt body (fold cl_withitem items st)"
| "cl_stmt (AsyncWith n items body) st = fold cl_stmt body (fold cl_withitem items st)"
| "cl_stmt (Raise n exc cause) st = cl_opt cl_expr cause (cl_opt cl_expr exc st)"
| "cl_stmt (Try n body handlers orelse finalbody) st =
     fold cl_stmt finalbody (fold cl_stmt orelse
       (fold cl_excepthandler handlers (fold cl_stmt body st)))"
| "cl_stmt (Assert n test msg) st = cl_opt cl_expr msg (cl_expr test st)"
| "cl_stmt (Import n names) st = fold (\<lambda>a. cl_add_local (alias_name a (alias_base a))) names st"
| "cl_stmt (ImportFrom n names) st =
     fold (\<lambda>a. cl_add_local (alias_name a (alias_full a))) names st"
| "cl_stmt (Exec n body globs locs) st =
     cl_opt cl_expr locs (cl_opt cl_expr globs (cl_expr body st))"
| "cl_stmt (Global n names) st = cl_add_nonlocals names st"
| "cl_stmt (Nonlocal n names) st = cl_add_nonlocals names st"
| "cl_stmt (Expr n v) st = cl_expr v st"
| "cl_stmt (Pass n) st = st"
| "cl_stmt (Break n) st = st"
| "cl_stmt (Continue n) st = st"
| "cl_excepthandler (excepthandler n type name body) st =
     fold cl_stmt body (cl_opt cl_expr name (cl_opt cl_expr type st))"

text \<open>
  \<open>collect_locals(node)\<close> runs \<open>generic_visit\<close> on the node that opens the
  scope: one function per kind of scope node.
\<close>

definition collect_locals_Module :: "stmt list \<Rightarrow> ident set" where
  "collect_locals_Module body = fst (fold cl_stmt body ({}, {}))"

definition collect_locals_FunctionDef ::
  "arguments \<Rightarrow> stmt list \<Rightarrow> expr list \<Rightarrow> expr option \<Rightarrow> ident set" where
  "collect_locals_FunctionDef args body decorator_list returns =
     fst (cl_opt cl_expr returns (fold cl_expr decorator_list
       (fold cl_stmt body (cl_arguments args ({}, {})))))"

definition collect_locals_ClassDef ::
  "expr list \<Rightarrow> keyword list \<Rightarrow> stmt list \<Rightarrow> expr list \<Rightarrow> ident set" where
  "collect_locals_ClassDef bases keywords body decorator_list =
     fst (fold cl_expr decorator_list (fold cl_stmt body
       (fold cl_keyword keywords (fold cl_expr bases ({}, {})))))"

definition collect_locals_Lambda :: "arguments \<Rightarrow> expr \<Rightarrow> ident set" where
  "collect_locals_Lambda args body = fst (cl_expr body (cl_arguments args ({}, {})))"

definition collect_locals_comp :: "expr list \<Rightarrow> comprehension list \<Rightarrow> ident set" where
  "collect_locals_comp elts generators =
     fst (fold cl_comprehension generators (fold cl_expr elts ({}, {})))"


section \<open>Scope and definition contexts\<close>

definition push_scope :: "scope_node \<Rightarrow> ident set \<Rightarrow> unit M" where
  "push_scope node plocals \<sigma> =
     bnd (modify (\<lambda>s. s\<lparr>scopes := scopes s @ [node],
                          scope_depths := scope_depths s @ [-1]\<rparr>)) (\<lambda>_.
     bnd (new_layer []) (\<lambda>l.
     modify (\<lambda>s. s\<lparr>definitions := definitions s @ [l],
                     globals := globals s @ [{}],
                     precomputed_locals := precomputed_locals s @ [plocals]\<rparr>))) \<sigma>"

text \<open>\<open>xs.pop()\<close> with the result dropped.\<close>

definition pop_precomputed_locals :: "unit M" where
  "pop_precomputed_locals s =
     (if precomputed_locals s = [] then Inl IndexError
     else Inr ((), s\<lparr>precomputed_locals := butlast (precomputed_locals s)\<rparr>))"

definition pop_globals :: "unit M" where
  "pop_globals s =
     (if globals s = [] then Inl IndexError
     else Inr ((), s\<lparr>globals := butlast (globals s)\<rparr>))"

definition pop_definitions :: "unit M" where
  "pop_definitions s =
     (if definitions s = [] then Inl IndexError
     else Inr ((), s\<lparr>definitions := butlast (definitions s)\<rparr>))"

definition pop_scope_depths :: "unit M" where
  "pop_scope_depths s =
     (if scope_depths s = [] then Inl IndexError
     else Inr ((), s\<lparr>scope_depths := butlast (scope_depths s)\<rparr>))"

definition pop_scopes :: "unit M" where
  "pop_scopes s =
     (if scopes s = [] then Inl IndexError
     else Inr ((), s\<lparr>scopes := butlast (scopes s)\<rparr>))"

definition pop_scope :: "unit M" where
  "pop_scope \<sigma> = seqM [pop_precomputed_locals, pop_globals, pop_definitions,
                     pop_scope_depths, pop_scopes] \<sigma>"

definition ScopeContext :: "scope_node \<Rightarrow> ident set \<Rightarrow> 'a M \<Rightarrow> 'a M" where
  "ScopeContext node plocals body \<sigma> =
     bnd (push_scope node plocals) (\<lambda>_.
     bnd body (\<lambda>r.
     bnd pop_scope (\<lambda>_. ret r))) \<sigma>"

text \<open>\<open>self._scope_depths[-1] += k\<close>\<close>

definition bump_scope_depth :: "int \<Rightarrow> unit M" where
  "bump_scope_depth k s =
     (if scope_depths s = [] then Inl IndexError
     else Inr ((), s\<lparr>scope_depths := butlast (scope_depths s) @ [last (scope_depths s) + k]\<rparr>))"

definition DefinitionContext :: "nat \<Rightarrow> 'a M \<Rightarrow> 'a M" where
  "DefinitionContext l body \<sigma> =
     bnd (modify (\<lambda>s. s\<lparr>definitions := definitions s @ [l]\<rparr>)) (\<lambda>_.
     bnd (bump_scope_depth (-1)) (\<lambda>_.
     bnd body (\<lambda>r.
     bnd (bump_scope_depth 1) (\<lambda>_.
     bnd pop_definitions (\<lambda>_. ret r))))) \<sigma>"

definition SwitchScopeContext ::
  "nat list \<Rightarrow> scope_node list \<Rightarrow> int list \<Rightarrow> ident set list \<Rightarrow> 'a M \<Rightarrow> 'a M" where
  "SwitchScopeContext layers scps depths plocals body \<sigma> =
     bnd (gets (\<lambda>s. (definitions s, scopes s, scope_depths s, precomputed_locals s)))
       (\<lambda>(defs0, scps0, depths0, plocals0).
     bnd (modify (\<lambda>s. s\<lparr>scope_depths := depths, scopes := scps, definitions := layers,
                          precomputed_locals := plocals\<rparr>)) (\<lambda>_.
     bnd body (\<lambda>r.
     bnd (modify (\<lambda>s. s\<lparr>definitions := defs0, scopes := scps0, scope_depths := depths0,
                          precomputed_locals := plocals0\<rparr>)) (\<lambda>_. ret r)))) \<sigma>"

text \<open>The copy of the top layer that opens a branch.\<close>

definition copy_top :: "nat M" where
  "copy_top \<sigma> = bnd (top_of definitions) layer_copy \<sigma>"

definition breaks_append :: "unit M" where
  "breaks_append \<sigma> = bnd (new_layer []) (\<lambda>l. modify (\<lambda>s. s\<lparr>breaks := breaks s @ [l]\<rparr>)) \<sigma>"

definition continues_append :: "unit M" where
  "continues_append \<sigma> = bnd (new_layer []) (\<lambda>l. modify (\<lambda>s. s\<lparr>continues := continues s @ [l]\<rparr>)) \<sigma>"

definition undefs_append :: "unit M" where
  "undefs_append \<sigma> = modify (\<lambda>s. s\<lparr>undefs := undefs s @ [[]]\<rparr>) \<sigma>"

definition breaks_pop :: "nat M" where
  "breaks_pop s =
     (if breaks s = [] then Inl IndexError
     else Inr (last (breaks s), s\<lparr>breaks := butlast (breaks s)\<rparr>))"

definition continues_pop :: "nat M" where
  "continues_pop s =
     (if continues s = [] then Inl IndexError
     else Inr (last (continues s), s\<lparr>continues := butlast (continues s)\<rparr>))"

definition undefs_pop :: "unit M" where
  "undefs_pop s =
     (if undefs s = [] then Inl IndexError
     else Inr ((), s\<lparr>undefs := butlast (undefs s)\<rparr>))"

section \<open>The name resolver\<close>

definition in_globals :: "ident \<Rightarrow> bool M" where
  "in_globals name \<sigma> = gets (\<lambda>s. \<exists>g \<in> set (globals s). name \<in> g) \<sigma>"

definition invalid_name_lookup ::
  "ident \<Rightarrow> scope_node \<Rightarrow> ident set \<Rightarrow> nat list \<Rightarrow> bool M" where
  "invalid_name_lookup name scope plocals local_defs \<sigma> =
     (if name \<notin> plocals then ret False
      else
        bnd (gets (\<lambda>s. \<exists>l \<in> set local_defs.
               has_key name (layer s l) \<or> has_key ''*'' (layer s l))) (\<lambda>islocal.
        if snd scope = SClass then
          bnd (bottom_of scope_depths) (\<lambda>d0.
          bnd (gets (\<lambda>s. py_slice (definitions s) (Some 0) (Some (- d0)))) (\<lambda>top_level.
          bnd (gets (\<lambda>s. \<exists>l \<in> set top_level.
                 has_key name (layer s l) \<or> has_key ''*'' (layer s l))) (\<lambda>isglobal.
          ret (\<not> islocal \<and> \<not> isglobal))))
        else ret (\<not> islocal))) \<sigma>"

text \<open>
  The loop over the enclosing scopes; \<open>acc\<close> is \<open>looked_up_definitions\<close>,
  and leaving through \<open>break\<close> returns the cleared list.
\<close>

fun outer_scopes ::
  "ident \<Rightarrow> scope_node \<Rightarrow> int \<Rightarrow> (scope_node \<times> int \<times> ident set) list \<Rightarrow> nat list
     \<Rightarrow> nat list M" where
  "outer_scopes name base_scope lvl [] acc = ret acc"
| "outer_scopes name base_scope lvl ((scope, depth, plocals) # rest) acc =
     (if snd scope \<noteq> SClass then
        bnd (gets (\<lambda>s. py_slice (definitions s) (Some (lvl + depth)) (Some lvl))) (\<lambda>defs.
        bnd (invalid_name_lookup name base_scope plocals defs) (\<lambda>invalid.
          if invalid then ret []
          else outer_scopes name base_scope (lvl + depth) rest (acc @ rev defs)))
      else outer_scopes name base_scope (lvl + depth) rest acc)"

definition looked_up_definitions :: "ident \<Rightarrow> nat list M" where
  "looked_up_definitions name \<sigma> =
     bnd (in_globals name) (\<lambda>g.
       if g then
         bnd (bottom_of scope_depths) (\<lambda>d0.
         gets (\<lambda>s. py_slice (definitions s) (Some 0) (Some (- d0))))
       else
         bnd (gets (\<lambda>s. (rev (scopes s), rev (scope_depths s), rev (precomputed_locals s))))
           (\<lambda>(scopes_iter, depths_iter, plocals_iter).
         case depths_iter of [] \<Rightarrow> raise StopIteration | depth # depths_rest \<Rightarrow>
         (case plocals_iter of [] \<Rightarrow> raise StopIteration | plocals # plocals_rest \<Rightarrow>
         (case scopes_iter of [] \<Rightarrow> raise StopIteration | base_scope # scopes_rest \<Rightarrow>
           bnd (gets (\<lambda>s. py_slice (definitions s) (Some depth) None)) (\<lambda>defs.
           bnd (invalid_name_lookup name base_scope plocals defs) (\<lambda>invalid.
             if invalid then ret []
             else outer_scopes name base_scope depth
                    (zip scopes_rest (zip depths_rest plocals_rest)) (rev defs))))))) \<sigma>"

text \<open>
  The search through \<open>looked_up_definitions\<close>: \<open>Inl\<close> is the value of the
  \<open>return\<close> inside the loop, \<open>Inr\<close> the wildcards collected when the loop
  runs to its end.
\<close>

fun search_defs :: "analyzer \<Rightarrow> ident \<Rightarrow> nat list \<Rightarrow> nat list \<Rightarrow> nat list + nat list" where
  "search_defs s name stars [] = Inr stars"
| "search_defs s name stars (l # ls) =
     (case map_of (layer s l) name of
        Some os \<Rightarrow> Inl (if stars = [] then oset_at s os else stars @ oset_at s os)
      | None \<Rightarrow>
         (case map_of (layer s l) ''*'' of
            Some os \<Rightarrow> search_defs s name (stars @ oset_at s os) ls
          | None \<Rightarrow> search_defs s name stars ls))"

definition undefs_register :: "ident \<Rightarrow> nat \<Rightarrow> nat list \<Rightarrow> unit M" where
  "undefs_register name d stars \<sigma> = modify (\<lambda>s.
     if undefs s = [] then s
     else s\<lparr>undefs := butlast (undefs s) @
       [AList.update name
          ((case map_of (last (undefs s)) name of None \<Rightarrow> [] | Some xs \<Rightarrow> xs) @ [(d, stars)])
          (last (undefs s))]\<rparr>) \<sigma>"

definition defs :: "nid \<Rightarrow> ident \<Rightarrow> bool \<Rightarrow> nat list M" where
  "defs node name quiet \<sigma> =
     bnd (looked_up_definitions name) (\<lambda>looked_up.
     bnd (gets (\<lambda>s. search_defs s name [] looked_up)) (\<lambda>found.
     case found of
       Inl ds \<Rightarrow> ret ds
     | Inr stars \<Rightarrow>
         bnd (chains_setdefault node (IName name)) (\<lambda>d.
         bnd (undefs_register name d stars) (\<lambda>_.
         if stars \<noteq> [] then ret (stars @ [d])
         else
           bnd (gets (\<lambda>s. undefs s = [])) (\<lambda>no_undefs.
           bnd (whenM (no_undefs \<and> \<not> quiet) (unbound_identifier name (NodeRef node (IName name))))
             (\<lambda>_. ret [d])))))) \<sigma>"

section \<open>\<open>process_body\<close> and \<open>process_undefs\<close>\<close>

definition is_jump :: "stmt \<Rightarrow> bool" where
  "is_jump st = (case st of Break _ \<Rightarrow> True | Continue _ \<Rightarrow> True | Raise _ _ _ \<Rightarrow> True
                 | _ \<Rightarrow> False)"

definition deadcode_add :: "int \<Rightarrow> unit M" where
  "deadcode_add k \<sigma> = modify (\<lambda>s. s\<lparr>deadcode := deadcode s + k\<rparr>) \<sigma>"

text \<open>The loop of \<open>process_body\<close>, threading the local flag \<open>deadcode\<close>.\<close>

fun process_body_loop :: "(stmt \<Rightarrow> unit M) \<Rightarrow> bool \<Rightarrow> stmt list \<Rightarrow> bool M" where
  "process_body_loop visit dead [] = ret dead"
| "process_body_loop visit dead (st # stmts) =
     bnd (if is_jump st \<and> \<not> dead then bnd (deadcode_add 1) (\<lambda>_. ret True) else ret dead)
       (\<lambda>dead'.
     bnd (visit st) (\<lambda>_. process_body_loop visit dead' stmts))"

definition process_body :: "(stmt \<Rightarrow> unit M) \<Rightarrow> stmt list \<Rightarrow> unit M" where
  "process_body visit stmts \<sigma> =
     bnd (process_body_loop visit False stmts) (\<lambda>dead. whenM dead (deadcode_add (-1))) \<sigma>"

definition node_of :: "nat \<Rightarrow> node_ref M" where
  "node_of d \<sigma> = gets (\<lambda>s. def_node s d) \<sigma>"

definition users_of :: "nat \<Rightarrow> nat list M" where
  "users_of d \<sigma> = gets (\<lambda>s. def_users s d) \<sigma>"

definition process_undefs :: "unit M" where
  "process_undefs \<sigma> =
     bnd (top_of undefs) (\<lambda>frame.
     bnd (forM frame (\<lambda>(undef_name, us).
       bnd (top_of definitions) (\<lambda>l.
       bnd (gets (\<lambda>s. map_of (layer s l) undef_name)) (\<lambda>entry.
       case entry of
         Some os \<Rightarrow>
           bnd (oset_contents os) (\<lambda>newdefs.
           forM newdefs (\<lambda>newdef.
             forM us (\<lambda>(undef, _).
               bnd (users_of undef) (\<lambda>users.
               forM users (\<lambda>user. add_user newdef user)))))
       | None \<Rightarrow>
           forM us (\<lambda>(undef, stars).
             whenM (stars = [])
               (bnd (node_of undef) (\<lambda>n. unbound_identifier undef_name n))))))) (\<lambda>_.
     undefs_pop)) \<sigma>"


section \<open>The expression visitor\<close>

lemma forM_cong [fundef_cong]:
  "xs = ys \<Longrightarrow> (\<And>x. x \<in> set ys \<Longrightarrow> f x = g x) \<Longrightarrow> forM xs f = forM ys g"
  by (induction ys arbitrary: xs) auto

text \<open>\<open>self.visit(x).add_user(dnode)\<close>\<close>

definition visit_add_user :: "nat option M \<Rightarrow> nat \<Rightarrow> unit M" where
  "visit_add_user m dnode \<sigma> = bnd m (\<lambda>r. add_user_opt r dnode) \<sigma>"

definition chains_getitem :: "nid \<Rightarrow> nat M" where
  "chains_getitem n \<sigma> = bnd (gets (\<lambda>s. map_of (chains s) n))
     (\<lambda>r. case r of None \<Rightarrow> raise KeyError | Some d \<Rightarrow> ret d) \<sigma>"

definition chains_setitem :: "nid \<Rightarrow> nat \<Rightarrow> unit M" where
  "chains_setitem n d \<sigma> = modify (\<lambda>s. s\<lparr>chains := AList.update n d (chains s)\<rparr>) \<sigma>"

text \<open>The store branch of \<open>visit_Name\<close>, up to the visit of the annotation.\<close>

definition visit_Name_store :: "nid \<Rightarrow> ident \<Rightarrow> nat M" where
  "visit_Name_store n name \<sigma> =
     bnd (chains_setdefault n (IName name)) (\<lambda>dnode.
     bnd (in_globals name) (\<lambda>g.
     bnd (if g then set_or_extend_global name dnode
          else
            bnd (set_definition name (One dnode)) (\<lambda>_.
            bnd (top_of scopes) (\<lambda>scope.
            bnd (gets (\<lambda>s. dnode \<in> set (locals s (fst scope)))) (\<lambda>present.
            whenM (\<not> present) (locals_append (fst scope) dnode))))) (\<lambda>_.
     ret dnode))) \<sigma>"

text \<open>The load branch of \<open>visit_Name\<close>, also taken for \<open>Del\<close>.\<close>

definition visit_Name_load :: "nid \<Rightarrow> ident \<Rightarrow> nat M" where
  "visit_Name_load n name \<sigma> =
     bnd (gets (\<lambda>s. has_key n (chains s))) (\<lambda>node_in_chains.
     bnd (if node_in_chains then chains_getitem n else new_Def (NodeRef n (IName name)))
       (\<lambda>dnode.
     bnd (defs n name False) (\<lambda>ds.
     bnd (forM ds (\<lambda>d. add_user d dnode)) (\<lambda>_.
     bnd (whenM (\<not> node_in_chains) (chains_setitem n dnode)) (\<lambda>_.
     ret dnode))))) \<sigma>"

text \<open>
  \<open>visit_Name\<close> receives the context as an argument: \<open>visit_AugAssign\<close> and
  \<open>visit_Destructured\<close> overwrite \<open>node.ctx\<close> for the time of the call and
  put the old context back afterwards.  \<open>visit_Destructured\<close> receives the
  identity, the kind and the elements of its list or tuple.
\<close>

fun visit_expr :: "expr \<Rightarrow> nat option M"
  and visit_Name :: "nid \<Rightarrow> ident \<Rightarrow> expr_context \<Rightarrow> expr option \<Rightarrow> bool \<Rightarrow> nat option M"
  and visit_Destructured :: "nid \<Rightarrow> string \<Rightarrow> expr list \<Rightarrow> nat option M"
  and visit_comprehension :: "comprehension \<Rightarrow> nat option M"
  and visit_arguments :: "arguments \<Rightarrow> unit M" where
  "visit_expr (BoolOp n vs) =
     bnd (chains_setdefault n (IOther ''BoolOp'')) (\<lambda>dnode.
     bnd (forM vs (\<lambda>v. visit_add_user (visit_expr v) dnode)) (\<lambda>_.
     ret (Some dnode)))"
| "visit_expr (BinOp n l r) =
     bnd (chains_setdefault n (IOther ''BinOp'')) (\<lambda>dnode.
     bnd (visit_add_user (visit_expr l) dnode) (\<lambda>_.
     bnd (visit_add_user (visit_expr r) dnode) (\<lambda>_.
     ret (Some dnode))))"
| "visit_expr (UnaryOp n operand) =
     bnd (chains_setdefault n (IOther ''UnaryOp'')) (\<lambda>dnode.
     bnd (visit_add_user (visit_expr operand) dnode) (\<lambda>_.
     ret (Some dnode)))"
| "visit_expr (Lambda n args body) =
     bnd (chains_setdefault n (IOther ''Lambda'')) (\<lambda>dnode.
     ret (Some dnode))"
| "visit_expr (IfExp n test body orelse) =
     bnd (chains_setdefault n (IOther ''IfExp'')) (\<lambda>dnode.
     bnd (visit_add_user (visit_expr test) dnode) (\<lambda>_.
     bnd (visit_add_user (visit_expr body) dnode) (\<lambda>_.
     bnd (visit_add_user (visit_expr orelse) dnode) (\<lambda>_.
     ret (Some dnode)))))"
| "visit_expr (Dict n keys vs) =
     bnd (chains_setdefault n (IOther ''Dict'')) (\<lambda>dnode.
     bnd (forM keys (\<lambda>key. case key of None \<Rightarrow> ret ()
                            | Some k \<Rightarrow> visit_add_user (visit_expr k) dnode)) (\<lambda>_.
     bnd (forM vs (\<lambda>v. visit_add_user (visit_expr v) dnode)) (\<lambda>_.
     ret (Some dnode))))"
| "visit_expr (Set n elts) =
     bnd (chains_setdefault n (IOther ''Set'')) (\<lambda>dnode.
     bnd (forM elts (\<lambda>elt. visit_add_user (visit_expr elt) dnode)) (\<lambda>_.
     ret (Some dnode)))"
| "visit_expr (ListComp n elt generators) =
     bnd (chains_setdefault n (IOther ''ListComp'')) (\<lambda>dnode.
     bnd (ScopeContext (n, SComp) (collect_locals_comp [elt] generators)
            (bnd (forM generators (\<lambda>c. visit_add_user (visit_comprehension c) dnode)) (\<lambda>_.
             visit_add_user (visit_expr elt) dnode))) (\<lambda>_.
     ret (Some dnode)))"
| "visit_expr (SetComp n elt generators) =
     bnd (chains_setdefault n (IOther ''SetComp'')) (\<lambda>dnode.
     bnd (ScopeContext (n, SComp) (collect_locals_comp [elt] generators)
            (bnd (forM generators (\<lambda>c. visit_add_user (visit_comprehension c) dnode)) (\<lambda>_.
             visit_add_user (visit_expr elt) dnode))) (\<lambda>_.
     ret (Some dnode)))"
| "visit_expr (DictComp n key v generators) =
     bnd (chains_setdefault n (IOther ''DictComp'')) (\<lambda>dnode.
     bnd (ScopeContext (n, SComp) (collect_locals_comp [key, v] generators)
            (bnd (forM generators (\<lambda>c. visit_add_user (visit_comprehension c) dnode)) (\<lambda>_.
             bnd (visit_add_user (visit_expr key) dnode) (\<lambda>_.
             visit_add_user (visit_expr v) dnode)))) (\<lambda>_.
     ret (Some dnode)))"
| "visit_expr (GeneratorExp n elt generators) =
     bnd (chains_setdefault n (IOther ''GeneratorExp'')) (\<lambda>dnode.
     bnd (ScopeContext (n, SComp) (collect_locals_comp [elt] generators)
            (bnd (forM generators (\<lambda>c. visit_add_user (visit_comprehension c) dnode)) (\<lambda>_.
             visit_add_user (visit_expr elt) dnode))) (\<lambda>_.
     ret (Some dnode)))"
| "visit_expr (Await n v) =
     bnd (chains_setdefault n (IOther ''Await'')) (\<lambda>dnode.
     bnd (visit_add_user (visit_expr v) dnode) (\<lambda>_.
     ret (Some dnode)))"
| "visit_expr (Yield n v) =
     bnd (chains_setdefault n (IOther ''Yield'')) (\<lambda>dnode.
     bnd (case v of None \<Rightarrow> ret () | Some e \<Rightarrow> visit_add_user (visit_expr e) dnode) (\<lambda>_.
     ret (Some dnode)))"
| "visit_expr (YieldFrom n v) =
     bnd (chains_setdefault n (IOther ''YieldFrom'')) (\<lambda>dnode.
     bnd (visit_add_user (visit_expr v) dnode) (\<lambda>_.
     ret (Some dnode)))"
| "visit_expr (Compare n l comparators) =
     bnd (chains_setdefault n (IOther ''Compare'')) (\<lambda>dnode.
     bnd (visit_add_user (visit_expr l) dnode) (\<lambda>_.
     bnd (forM comparators (\<lambda>e. visit_add_user (visit_expr e) dnode)) (\<lambda>_.
     ret (Some dnode))))"
| "visit_expr (Call n func args keywords) =
     bnd (chains_setdefault n (IOther ''Call'')) (\<lambda>dnode.
     bnd (visit_add_user (visit_expr func) dnode) (\<lambda>_.
     bnd (forM args (\<lambda>arg. visit_add_user (visit_expr arg) dnode)) (\<lambda>_.
     bnd (forM keywords (\<lambda>kw. case kw of keyword a v \<Rightarrow>
            visit_add_user (visit_expr v) dnode)) (\<lambda>_.
     ret (Some dnode)))))"
| "visit_expr (Repr n v) =
     bnd (chains_setdefault n (IOther ''Repr'')) (\<lambda>dnode.
     bnd (visit_add_user (visit_expr v) dnode) (\<lambda>_.
     ret (Some dnode)))"
| "visit_expr (Constant n) =
     bnd (chains_setdefault n (IOther ''Constant'')) (\<lambda>dnode.
     ret (Some dnode))"
| "visit_expr (FormattedValue n v format_spec) =
     bnd (chains_setdefault n (IOther ''FormattedValue'')) (\<lambda>dnode.
     bnd (visit_add_user (visit_expr v) dnode) (\<lambda>_.
     bnd (case format_spec of None \<Rightarrow> ret ()
          | Some f \<Rightarrow> visit_add_user (visit_expr f) dnode) (\<lambda>_.
     ret (Some dnode))))"
| "visit_expr (JoinedStr n vs) =
     bnd (chains_setdefault n (IOther ''JoinedStr'')) (\<lambda>dnode.
     bnd (forM vs (\<lambda>v. visit_add_user (visit_expr v) dnode)) (\<lambda>_.
     ret (Some dnode)))"
| "visit_expr (Attribute n v attr ctx) =
     bnd (chains_setdefault n (IOther ''Attribute'')) (\<lambda>dnode.
     bnd (visit_add_user (visit_expr v) dnode) (\<lambda>_.
     ret (Some dnode)))"
| "visit_expr (Subscript n v slice ctx) =
     bnd (chains_setdefault n (IOther ''Subscript'')) (\<lambda>dnode.
     bnd (visit_add_user (visit_expr v) dnode) (\<lambda>_.
     bnd (visit_add_user (visit_expr slice) dnode) (\<lambda>_.
     ret (Some dnode))))"
| "visit_expr (Starred n v ctx) =
     bnd (chains_setdefault n (IOther ''Starred'')) (\<lambda>dnode.
     bnd (visit_add_user (visit_expr v) dnode) (\<lambda>_.
     ret (Some dnode)))"
| "visit_expr (NamedExpr n target v) =
     bnd (chains_setdefault n (IOther ''NamedExpr'')) (\<lambda>dnode.
     bnd (visit_add_user (visit_expr v) dnode) (\<lambda>_.
     bnd (visit_expr target) (\<lambda>_.
     ret (Some dnode))))"
| "visit_expr (Name n name ctx annotation) = visit_Name n name ctx annotation False"
| "visit_expr (List n elts ctx) =
     (if ctx = Load then
        bnd (chains_setdefault n (IOther ''List'')) (\<lambda>dnode.
        bnd (forM elts (\<lambda>elt. visit_add_user (visit_expr elt) dnode)) (\<lambda>_.
        ret (Some dnode)))
      else if ctx = Store then visit_Destructured n ''List'' elts
      else ret None)"
| "visit_expr (Tuple n elts ctx) =
     (if ctx = Load then
        bnd (chains_setdefault n (IOther ''Tuple'')) (\<lambda>dnode.
        bnd (forM elts (\<lambda>elt. visit_add_user (visit_expr elt) dnode)) (\<lambda>_.
        ret (Some dnode)))
      else if ctx = Store then visit_Destructured n ''Tuple'' elts
      else ret None)"
| "visit_expr (Slice n lower upper step) =
     bnd (chains_setdefault n (IOther ''Slice'')) (\<lambda>dnode.
     bnd (case lower of None \<Rightarrow> ret () | Some e \<Rightarrow> visit_add_user (visit_expr e) dnode) (\<lambda>_.
     bnd (case upper of None \<Rightarrow> ret () | Some e \<Rightarrow> visit_add_user (visit_expr e) dnode) (\<lambda>_.
     bnd (case step of None \<Rightarrow> ret () | Some e \<Rightarrow> visit_add_user (visit_expr e) dnode) (\<lambda>_.
     ret (Some dnode)))))"
| "visit_Name n name ctx annotation skip_annotation =
     (if ctx = Param \<or> ctx = Store then
        bnd (visit_Name_store n name) (\<lambda>dnode.
        bnd (case annotation of None \<Rightarrow> ret ()
             | Some a \<Rightarrow> if skip_annotation then ret () else ignore (visit_expr a)) (\<lambda>_.
        ret (Some dnode)))
      else if ctx = Load \<or> ctx = Del then
        bnd (visit_Name_load n name) (\<lambda>dnode. ret (Some dnode))
      else raise NotImplementedError)"
| "visit_Destructured n kind elts =
     bnd (chains_setdefault n (IOther kind)) (\<lambda>dnode.
     bnd (forM elts (\<lambda>elt. case elt of
            Name m name ctx annotation \<Rightarrow> ignore (visit_Name m name Store annotation False)
          | Subscript _ _ _ _ \<Rightarrow> ignore (visit_expr elt)
          | List m es _ \<Rightarrow> ignore (visit_Destructured m ''List'' es)
          | Tuple m es _ \<Rightarrow> ignore (visit_Destructured m ''Tuple'' es)
          | _ \<Rightarrow> ret ())) (\<lambda>_.
     ret (Some dnode)))"
| "visit_comprehension (comprehension n target iter ifs) =
     bnd (chains_setdefault n (IOther ''comprehension'')) (\<lambda>dnode.
     bnd (visit_add_user (visit_expr iter) dnode) (\<lambda>_.
     bnd (visit_expr target) (\<lambda>_.
     bnd (forM ifs (\<lambda>i. visit_add_user (visit_expr i) dnode)) (\<lambda>_.
     ret (Some dnode)))))"
| "visit_arguments (arguments args posonlyargs vararg kwonlyargs kw_defaults kwarg defaults) =
     bnd (forM args (\<lambda>arg. visit_expr arg)) (\<lambda>_.
     bnd (forM posonlyargs (\<lambda>arg. visit_expr arg)) (\<lambda>_.
     bnd (case vararg of None \<Rightarrow> ret () | Some a \<Rightarrow> ignore (visit_expr a)) (\<lambda>_.
     bnd (forM kwonlyargs (\<lambda>arg. visit_expr arg)) (\<lambda>_.
     (case kwarg of None \<Rightarrow> ret () | Some a \<Rightarrow> ignore (visit_expr a))))))"


section \<open>The statement visitor\<close>

lemma process_body_loop_cong:
  "(\<And>x. x \<in> set stmts \<Longrightarrow> f x = g x) \<Longrightarrow>
   process_body_loop f dead stmts = process_body_loop g dead stmts"
  by (induction stmts arbitrary: dead) auto

lemma process_body_cong [fundef_cong]:
  assumes "stmts = stmts'" and "\<And>x. x \<in> set stmts' \<Longrightarrow> f x = g x"
  shows "process_body f stmts = process_body g stmts'"
proof -
  have "process_body_loop f False stmts' = process_body_loop g False stmts'"
    by (rule process_body_loop_cong) (rule assms(2))
  then show ?thesis
    unfolding assms(1) by (intro ext) (simp add: process_body_def)
qed

text \<open>
  \<open>receiver.add_user(argument)\<close> where both come from a visit: \<open>None\<close> as
  the receiver has no such attribute, \<open>None\<close> as the argument fails the
  assertion of \<open>add_user\<close>.
\<close>

definition add_user_opt2 :: "nat option \<Rightarrow> nat option \<Rightarrow> unit M" where
  "add_user_opt2 r u \<sigma> = (case r of None \<Rightarrow> raise AttributeError
     | Some d \<Rightarrow> (case u of None \<Rightarrow> raise AssertionError | Some x \<Rightarrow> add_user d x)) \<sigma>"

definition visit_annotation :: "expr \<Rightarrow> unit M" where
  "visit_annotation node \<sigma> = (case node of
       Name _ _ _ (Some annotation) \<Rightarrow> ignore (visit_expr annotation)
     | _ \<Rightarrow> ret ()) \<sigma>"

definition visit_skip_annotation :: "expr \<Rightarrow> unit M" where
  "visit_skip_annotation node \<sigma> = (case node of
       Name n name ctx annotation \<Rightarrow> ignore (visit_Name n name ctx annotation True)
     | _ \<Rightarrow> ignore (visit_expr node)) \<sigma>"

definition visit_withitem :: "withitem \<Rightarrow> nat option M" where
  "visit_withitem w \<sigma> = (case w of withitem n context_expr optional_vars \<Rightarrow>
     bnd (chains_setdefault n (IOther ''withitem'')) (\<lambda>dnode.
     bnd (visit_add_user (visit_expr context_expr) dnode) (\<lambda>_.
     bnd (case optional_vars of None \<Rightarrow> ret () | Some v \<Rightarrow> ignore (visit_expr v)) (\<lambda>_.
     ret (Some dnode))))) \<sigma>"

definition current_scope :: "nid M" where
  "current_scope \<sigma> = bnd (top_of scopes) (\<lambda>sc. ret (fst sc)) \<sigma>"

text \<open>The body of the loops of \<open>visit_Import\<close> and \<open>visit_ImportFrom\<close>.\<close>

definition visit_alias :: "import_alias \<Rightarrow> ident \<Rightarrow> unit M" where
  "visit_alias a default_name \<sigma> = (case a of Alias n name asname \<Rightarrow>
     bnd (chains_setdefault n (IAlias name asname)) (\<lambda>dalias.
     bnd (set_definition (alias_name a default_name) (One dalias)) (\<lambda>_.
     bnd current_scope (\<lambda>sc. locals_append sc dalias)))) \<sigma>"

definition defered_append :: "defered_node \<Rightarrow> unit M" where
  "defered_append node \<sigma> = modify (\<lambda>s. s\<lparr>defered := defered s @
     [Defered node (definitions s) (scopes s) (scope_depths s) (precomputed_locals s)]\<rparr>) \<sigma>"

text \<open>The declaration step of \<open>visit_FunctionDef\<close>.\<close>

definition visit_FunctionDef_DeclarationStep ::
  "stmt \<Rightarrow> nid \<Rightarrow> ident \<Rightarrow> arguments \<Rightarrow> expr list \<Rightarrow> expr option \<Rightarrow> unit M" where
  "visit_FunctionDef_DeclarationStep node n name args decorator_list returns \<sigma> =
     (case args of arguments aargs posonlyargs vararg kwonlyargs kw_defaults kwarg defaults \<Rightarrow>
     bnd (chains_setdefault n (IFunctionDef name)) (\<lambda>dnode.
     bnd current_scope (\<lambda>sc.
     seqM [
       locals_append sc dnode,
       forM aargs visit_annotation,
       forM posonlyargs visit_annotation,
       (case vararg of None \<Rightarrow> ret () | Some a \<Rightarrow> visit_annotation a),
       forM kwonlyargs visit_annotation,
       (case kwarg of None \<Rightarrow> ret () | Some a \<Rightarrow> visit_annotation a),
       forM kw_defaults (\<lambda>kw_default. case kw_default of None \<Rightarrow> ret ()
          | Some e \<Rightarrow> visit_add_user (visit_expr e) dnode),
       forM defaults (\<lambda>default. visit_add_user (visit_expr default) dnode),
       forM decorator_list visit_expr,
       (case returns of None \<Rightarrow> ret () | Some r \<Rightarrow> ignore (visit_expr r)),
       set_definition name (One dnode),
       defered_append (DStmt node)]))) \<sigma>"

definition globals_add :: "ident \<Rightarrow> unit M" where
  "globals_add name s =
     (if globals s = [] then Inl IndexError
     else Inr ((), s\<lparr>globals := butlast (globals s) @ [insert name (last (globals s))]\<rparr>))"

text \<open>
  The \<open>Def\<close>s that \<open>visit_Exec\<close> links to the node when \<open>locals\<close> is
  omitted: the layers above the first one from the top down, every name once.
\<close>

fun exec_visible :: "analyzer \<Rightarrow> ident set \<Rightarrow> (ident \<times> nat) list \<Rightarrow> ident set \<times> nat list" where
  "exec_visible s visible [] = (visible, [])"
| "exec_visible s visible ((dname, os) # items) =
     (if dname \<notin> visible then
        (let (v, ds) = exec_visible s (insert dname visible) items in (v, oset_at s os @ ds))
      else exec_visible s visible items)"

fun exec_layers :: "analyzer \<Rightarrow> ident set \<Rightarrow> nat list \<Rightarrow> nat list" where
  "exec_layers s visible [] = []"
| "exec_layers s visible (l # ls) =
     (let (v, ds) = exec_visible s visible (layer s l) in ds @ exec_layers s v ls)"

definition visit_Exec_links :: "bool \<Rightarrow> bool \<Rightarrow> nat \<Rightarrow> unit M" where
  "visit_Exec_links no_globals no_locals dnode \<sigma> =
     bnd (whenM no_globals
            (bnd (bottom_of definitions) (\<lambda>l0.
             bnd (gets (\<lambda>s. concat (map (\<lambda>(k, os). oset_at s os) (layer s l0)))) (\<lambda>ds.
             forM ds (\<lambda>d. add_user d dnode))))) (\<lambda>_.
     whenM no_locals
       (bnd (gets (\<lambda>s. exec_layers s {} (rev (py_slice (definitions s) (Some 1) None)))) (\<lambda>ds.
        forM ds (\<lambda>d. add_user d dnode)))) \<sigma>"

text \<open>The drain of the top layer into a loop carrier by \<open>break\<close> and \<open>continue\<close>.\<close>

definition drain_top_into :: "(analyzer \<Rightarrow> nat list) \<Rightarrow> unit M" where
  "drain_top_into carriers \<sigma> =
     bnd (top_of definitions) (\<lambda>l.
     bnd (layer_items l) (\<lambda>items.
     bnd (forM items (\<lambda>(k, v).
            bnd (top_of carriers) (\<lambda>c.
            bnd (oset_contents v) (\<lambda>vs. add_to_definition c k (Many vs))))) (\<lambda>_.
     bnd (top_of definitions) layer_clear))) \<sigma>"

text \<open>The two merging loops that end \<open>visit_If\<close>.\<close>

definition layer_contains :: "nat \<Rightarrow> ident \<Rightarrow> bool M" where
  "layer_contains l name \<sigma> = gets (\<lambda>s. has_key name (layer s l)) \<sigma>"

definition layer_values :: "nat \<Rightarrow> ident \<Rightarrow> nat list M" where
  "layer_values l name \<sigma> = bnd (layer_getitem l name) oset_contents \<sigma>"

definition merge_branches :: "nat \<Rightarrow> nat \<Rightarrow> unit M" where
  "merge_branches body_defs orelse_defs \<sigma> =
     bnd (layer_items body_defs) (\<lambda>body_items.
     bnd (forM body_items (\<lambda>(d, _).
            bnd (layer_contains orelse_defs d) (\<lambda>both.
            if both then
              bnd (layer_values body_defs d) (\<lambda>b.
              bnd (layer_values orelse_defs d) (\<lambda>e.
              set_definition d (Many (oset_plus b e))))
            else
              bnd (layer_values body_defs d) (\<lambda>b. extend_definition d (Many b))))) (\<lambda>_.
     bnd (layer_items orelse_defs) (\<lambda>orelse_items.
     forM orelse_items (\<lambda>(d, _).
       bnd (layer_contains body_defs d) (\<lambda>both.
       if both then ret ()
       else bnd (layer_values orelse_defs d) (\<lambda>e. extend_definition d (Many e))))))) \<sigma>"

text \<open>The loop of \<open>visit_Nonlocal\<close> for one name.\<close>

definition nonlocal_name :: "node_ref \<Rightarrow> ident \<Rightarrow> unit M" where
  "nonlocal_name node name \<sigma> =
     bnd (gets (\<lambda>s. find (\<lambda>l. has_key name (layer s l))
                       (rev (py_slice (definitions s) None (Some (-1)))))) (\<lambda>found.
     case found of
       Some d \<Rightarrow> bnd (layer_values d name) (\<lambda>vs. set_definition name (Many vs))
     | None \<Rightarrow> unbound_identifier name node) \<sigma>"

text \<open>
  The part of \<open>visit_AugAssign\<close> that follows the visit of the value when the
  target is a \<open>Name\<close>.
\<close>

definition augassign_name :: "nat option \<Rightarrow> nid \<Rightarrow> ident \<Rightarrow> expr option \<Rightarrow> unit M" where
  "augassign_name dvalue n name annotation \<sigma> =
     bnd (visit_Name n name Load annotation False) (\<lambda>dtarget.
     bnd (add_user_opt2 dvalue dtarget) (\<lambda>_.
     bnd (in_globals name) (\<lambda>g.
     case dtarget of None \<Rightarrow> raise AttributeError | Some dt \<Rightarrow>
       if g then extend_global name (One dt)
       else
         bnd (defs n name True) (\<lambda>ds.
         bnd (gets (\<lambda>s. map (\<lambda>d. Def_name (def_node s d)) ds)) (\<lambda>loaded_from.
         bnd (set_definition name (One dt)) (\<lambda>_.
         whenM (''*'' \<in> set loaded_from)
           (bnd current_scope (\<lambda>sc. locals_append sc dt)))))))) \<sigma>"

text \<open>
  The loop statements share the processing of the carriers after the first
  round over the body.
\<close>

definition reset_continues :: "unit M" where
  "reset_continues \<sigma> =
     bnd continues_pop (\<lambda>continue_defs.
     bnd (extend_definition_from continue_defs) (\<lambda>_. continues_append)) \<sigma>"

fun visit_stmt :: "stmt \<Rightarrow> unit M"
  and visit_excepthandler :: "excepthandler \<Rightarrow> nat option M" where
  "visit_stmt (FunctionDef n name args body decorator_list returns) =
     visit_FunctionDef_DeclarationStep
       (FunctionDef n name args body decorator_list returns) n name args decorator_list returns"
| "visit_stmt (AsyncFunctionDef n name args body decorator_list returns) =
     visit_FunctionDef_DeclarationStep
       (AsyncFunctionDef n name args body decorator_list returns) n name args decorator_list
       returns"
| "visit_stmt (ClassDef n name bases keywords body decorator_list) =
     bnd (chains_setdefault n (IClassDef name)) (\<lambda>dnode.
     bnd current_scope (\<lambda>sc.
     seqM [
       locals_append sc dnode,
       forM bases (\<lambda>base. visit_add_user (visit_expr base) dnode),
       forM keywords (\<lambda>kw. case kw of keyword a v \<Rightarrow> visit_add_user (visit_expr v) dnode),
       forM decorator_list (\<lambda>decorator. visit_add_user (visit_expr decorator) dnode),
       ScopeContext (n, SClass) (collect_locals_ClassDef bases keywords body decorator_list)
         (bnd (new_Def (StrValue ''__class__'')) (\<lambda>c.
          bnd (set_definition ''__class__'' (One c)) (\<lambda>_.
          process_body visit_stmt body))),
       set_definition name (One dnode)]))"
| "visit_stmt (Return n v) =
     (case v of None \<Rightarrow> ret () | Some e \<Rightarrow> ignore (visit_expr e))"
| "visit_stmt (Break n) = drain_top_into breaks"
| "visit_stmt (Continue n) = drain_top_into continues"
| "visit_stmt (Delete n targets) = forM targets visit_expr"
| "visit_stmt (Assign n targets v) =
     bnd (visit_expr v) (\<lambda>_. forM targets visit_expr)"
| "visit_stmt (AnnAssign n target annotation v) =
     bnd (case v of None \<Rightarrow> ret None | Some e \<Rightarrow> visit_expr e) (\<lambda>dvalue.
     bnd (visit_expr annotation) (\<lambda>dannotation.
     bnd (visit_expr target) (\<lambda>dtarget.
     bnd (add_user_opt2 dtarget dannotation) (\<lambda>_.
     (case v of None \<Rightarrow> ret () | Some _ \<Rightarrow> add_user_opt2 dvalue dtarget)))))"
| "visit_stmt (AugAssign n target v) =
     bnd (visit_expr v) (\<lambda>dvalue.
     case target of
       Name m name ctx annotation \<Rightarrow> augassign_name dvalue m name annotation
     | _ \<Rightarrow> bnd (visit_expr target) (\<lambda>dtarget. add_user_opt2 dtarget dvalue))"
| "visit_stmt (Print n dest vs) =
     bnd (case dest of None \<Rightarrow> ret () | Some e \<Rightarrow> ignore (visit_expr e)) (\<lambda>_.
     forM vs visit_expr)"
| "visit_stmt (For n target iter body orelse) =
     bnd (visit_expr iter) (\<lambda>_.
     bnd breaks_append (\<lambda>_.
     bnd continues_append (\<lambda>_.
     bnd undefs_append (\<lambda>_.
     bnd copy_top (\<lambda>body_defs.
     bnd (DefinitionContext body_defs
           (bnd (visit_expr target) (\<lambda>_.
            bnd (process_body visit_stmt body) (\<lambda>_.
            bnd process_undefs (\<lambda>_.
            bnd reset_continues (\<lambda>_.
            bnd (visit_expr target) (\<lambda>_.
            bnd (process_body visit_stmt body) (\<lambda>_.
            bnd (new_layer []) (\<lambda>orelse_defs.
            bnd (DefinitionContext orelse_defs (process_body visit_stmt orelse)) (\<lambda>_.
            bnd breaks_pop (\<lambda>break_defs.
            bnd continues_pop (\<lambda>continue_defs.
            ret (orelse_defs, break_defs, continue_defs)))))))))))))
       (\<lambda>(orelse_defs, break_defs, continue_defs).
     seqM [
       extend_definition_from orelse_defs,
       extend_definition_from continue_defs,
       extend_definition_from break_defs,
       extend_definition_from body_defs]))))))"
| "visit_stmt (AsyncFor n target iter body orelse) =
     bnd (visit_expr iter) (\<lambda>_.
     bnd breaks_append (\<lambda>_.
     bnd continues_append (\<lambda>_.
     bnd undefs_append (\<lambda>_.
     bnd copy_top (\<lambda>body_defs.
     bnd (DefinitionContext body_defs
           (bnd (visit_expr target) (\<lambda>_.
            bnd (process_body visit_stmt body) (\<lambda>_.
            bnd process_undefs (\<lambda>_.
            bnd reset_continues (\<lambda>_.
            bnd (visit_expr target) (\<lambda>_.
            bnd (process_body visit_stmt body) (\<lambda>_.
            bnd (new_layer []) (\<lambda>orelse_defs.
            bnd (DefinitionContext orelse_defs (process_body visit_stmt orelse)) (\<lambda>_.
            bnd breaks_pop (\<lambda>break_defs.
            bnd continues_pop (\<lambda>continue_defs.
            ret (orelse_defs, break_defs, continue_defs)))))))))))))
       (\<lambda>(orelse_defs, break_defs, continue_defs).
     seqM [
       extend_definition_from orelse_defs,
       extend_definition_from continue_defs,
       extend_definition_from break_defs,
       extend_definition_from body_defs]))))))"
| "visit_stmt (While n test body orelse) =
     bnd copy_top (\<lambda>first_defs.
     bnd (DefinitionContext first_defs
           (bnd undefs_append (\<lambda>_.
            bnd breaks_append (\<lambda>_.
            bnd continues_append (\<lambda>_.
            process_body visit_stmt orelse))))) (\<lambda>_.
     bnd copy_top (\<lambda>body_defs.
     bnd (DefinitionContext body_defs
           (bnd (visit_expr test) (\<lambda>_.
            bnd (process_body visit_stmt body) (\<lambda>_.
            bnd process_undefs (\<lambda>_.
            bnd reset_continues (\<lambda>_.
            bnd (visit_expr test) (\<lambda>_.
            bnd (process_body visit_stmt body) (\<lambda>_.
            bnd (visit_expr test) (\<lambda>_.
            bnd copy_top (\<lambda>orelse_defs.
            bnd (DefinitionContext orelse_defs (process_body visit_stmt orelse)) (\<lambda>_.
            ret orelse_defs)))))))))))
       (\<lambda>orelse_defs.
     bnd breaks_pop (\<lambda>break_defs.
     bnd continues_pop (\<lambda>continue_defs.
     seqM [
       extend_definition_from continue_defs,
       extend_definition_from break_defs,
       extend_definition_from orelse_defs,
       extend_definition_from body_defs]))))))"
| "visit_stmt (If n test body orelse) =
     bnd (visit_expr test) (\<lambda>_.
     bnd copy_top (\<lambda>body_defs.
     bnd (DefinitionContext body_defs (process_body visit_stmt body)) (\<lambda>_.
     bnd copy_top (\<lambda>orelse_defs.
     bnd (DefinitionContext orelse_defs (process_body visit_stmt orelse)) (\<lambda>_.
     merge_branches body_defs orelse_defs)))))"
| "visit_stmt (With n items body) =
     bnd (forM items visit_withitem) (\<lambda>_. process_body visit_stmt body)"
| "visit_stmt (AsyncWith n items body) =
     bnd (forM items visit_withitem) (\<lambda>_. process_body visit_stmt body)"
| "visit_stmt (Raise n exc cause) =
     bnd (case exc of None \<Rightarrow> ret () | Some e \<Rightarrow> ignore (visit_expr e)) (\<lambda>_.
     (case cause of None \<Rightarrow> ret () | Some e \<Rightarrow> ignore (visit_expr e)))"
| "visit_stmt (Try n body handlers orelse finalbody) =
     bnd copy_top (\<lambda>failsafe_defs.
     bnd (DefinitionContext failsafe_defs
           (bnd (process_body visit_stmt body) (\<lambda>_. process_body visit_stmt orelse))) (\<lambda>_.
     bnd (extend_definition_from failsafe_defs) (\<lambda>_.
     bnd (forM handlers (\<lambda>handler.
            bnd (new_layer []) (\<lambda>handler_def.
            bnd (DefinitionContext handler_def (visit_excepthandler handler)) (\<lambda>_.
            extend_definition_from handler_def)))) (\<lambda>_.
     process_body visit_stmt finalbody))))"
| "visit_stmt (Assert n test msg) =
     bnd (visit_expr test) (\<lambda>_.
     (case msg of None \<Rightarrow> ret () | Some e \<Rightarrow> ignore (visit_expr e)))"
| "visit_stmt (Import n names) = forM names (\<lambda>a. visit_alias a (alias_base a))"
| "visit_stmt (ImportFrom n names) = forM names (\<lambda>a. visit_alias a (alias_full a))"
| "visit_stmt (Exec n body globs locs) =
     bnd (chains_setdefault n (IOther ''Exec'')) (\<lambda>dnode.
     bnd (visit_expr body) (\<lambda>_.
     bnd (case globs of None \<Rightarrow> visit_Exec_links True False dnode
          | Some e \<Rightarrow> ignore (visit_expr e)) (\<lambda>_.
     bnd (case locs of None \<Rightarrow> visit_Exec_links False True dnode
          | Some e \<Rightarrow> ignore (visit_expr e)) (\<lambda>_.
     extend_definition ''*'' (One dnode)))))"
| "visit_stmt (Global n names) = forM names globals_add"
| "visit_stmt (Nonlocal n names) =
     forM names (nonlocal_name (NodeRef n (IOther ''Nonlocal'')))"
| "visit_stmt (Expr n v) = ignore (visit_expr v)"
| "visit_stmt (Pass n) = ret ()"
| "visit_excepthandler (excepthandler n type name body) =
     bnd (chains_setdefault n (IOther ''ExceptHandler'')) (\<lambda>dnode.
     bnd (case type of None \<Rightarrow> ret () | Some e \<Rightarrow> visit_add_user (visit_expr e) dnode) (\<lambda>_.
     bnd (case name of None \<Rightarrow> ret () | Some e \<Rightarrow> visit_add_user (visit_expr e) dnode) (\<lambda>_.
     bnd (process_body visit_stmt body) (\<lambda>_.
     ret (Some dnode)))))"


section \<open>The definition steps and \<open>visit_Module\<close>\<close>

definition visit_FunctionDef_DefinitionStep ::
  "nid \<Rightarrow> arguments \<Rightarrow> stmt list \<Rightarrow> expr list \<Rightarrow> expr option \<Rightarrow> unit M" where
  "visit_FunctionDef_DefinitionStep n args body decorator_list returns \<sigma> =
     (case args of arguments aargs posonlyargs vararg kwonlyargs kw_defaults kwarg defaults \<Rightarrow>
     ScopeContext (n, SFunction) (collect_locals_FunctionDef args body decorator_list returns)
       (seqM [
          forM aargs visit_skip_annotation,
          forM posonlyargs visit_skip_annotation,
          (case vararg of None \<Rightarrow> ret () | Some a \<Rightarrow> visit_skip_annotation a),
          forM kwonlyargs visit_skip_annotation,
          (case kwarg of None \<Rightarrow> ret () | Some a \<Rightarrow> visit_skip_annotation a),
          process_body visit_stmt body])) \<sigma>"

definition visit_Lambda_DefinitionStep :: "nid \<Rightarrow> arguments \<Rightarrow> expr \<Rightarrow> nat option M" where
  "visit_Lambda_DefinitionStep n args body \<sigma> =
     bnd (chains_getitem n) (\<lambda>dnode.
     bnd (ScopeContext (n, SLambda) (collect_locals_Lambda args body)
            (bnd (visit_arguments args) (\<lambda>_.
             visit_add_user (visit_expr body) dnode))) (\<lambda>_.
     ret (Some dnode))) \<sigma>"

text \<open>
  \<open>visitor(fnode, step=DefinitionStep)\<close>, the visitor being looked up from
  the type of the node: only the visitors of function definitions and of
  lambdas accept the keyword \<open>step\<close>.
\<close>

definition visit_DefinitionStep :: "defered_node \<Rightarrow> unit M" where
  "visit_DefinitionStep fnode \<sigma> = (case fnode of
       DStmt (FunctionDef n name args body decorator_list returns) \<Rightarrow>
         visit_FunctionDef_DefinitionStep n args body decorator_list returns
     | DStmt (AsyncFunctionDef n name args body decorator_list returns) \<Rightarrow>
         visit_FunctionDef_DefinitionStep n args body decorator_list returns
     | DExpr (Lambda n args body) \<Rightarrow> ignore (visit_Lambda_DefinitionStep n args body)
     | _ \<Rightarrow> raise TypeError) \<sigma>"

definition run_defered :: "defered_entry \<Rightarrow> unit M" where
  "run_defered entry \<sigma> = (case entry of Defered fnode layers scps depths plocals \<Rightarrow>
     SwitchScopeContext layers scps depths plocals (visit_DefinitionStep fnode)) \<sigma>"

text \<open>
  \<open>for ... in self._defered\<close>: the list grows while it is traversed, and the
  loop goes on through the entries appended meanwhile.  \<open>None\<close> stands for
  a loop that never ends.
\<close>

partial_function (option) handle_defered ::
  "nat \<Rightarrow> analyzer \<Rightarrow> (pyerror + unit \<times> analyzer) option" where
  "handle_defered i s =
     (if i < length (defered s) then
        (case run_defered (defered s ! i) s of
           Inl e \<Rightarrow> Some (Inl e)
         | Inr (_, s') \<Rightarrow> handle_defered (Suc i) s')
      else Some (Inr ((), s)))"

declare handle_defered.simps [code]

definition assertM :: "bool \<Rightarrow> unit M" where
  "assertM b \<sigma> = (if b then ret () else raise AssertionError) \<sigma>"

definition install_builtins :: "unit M" where
  "install_builtins \<sigma> =
     bnd (top_of definitions) (\<lambda>l.
     bnd (gets builtins) (\<lambda>bs.
     forM bs (\<lambda>(k, v). bnd (new_oset (ordered_set [v])) (\<lambda>os. layer_setitem l k os)))) \<sigma>"

definition sanity_checks :: "nid \<Rightarrow> unit M" where
  "sanity_checks node \<sigma> =
     bnd (gets (\<lambda>s. map (\<lambda>d. Def_name (def_node s d)) (locals s node))) (\<lambda>names.
     bnd (forM names (\<lambda>name.
            bnd (bottom_of definitions) (\<lambda>l0.
            bnd (layer_contains l0 name) assertM))) (\<lambda>_.
     bnd (bottom_of definitions) (\<lambda>l0.
     bnd (gets (\<lambda>s. (int (length (layer s l0)), int (length (builtins s)),
                      int (length (remdups (filter (\<lambda>n. has_key n (builtins s)) names))),
                      int (length (remdups names)))))
       (\<lambda>(nb_defs, nb_bltns, nb_overloaded_bltns, nb_heads).
     assertM (nb_defs = nb_heads + nb_bltns - nb_overloaded_bltns))))) \<sigma>"

definition final_asserts :: "unit M" where
  "final_asserts \<sigma> =
     bnd (gets (\<lambda>s. (definitions s = [], scopes s = [], scope_depths s = [],
                      precomputed_locals s = []))) (\<lambda>(a, b, c, d).
     seqM [assertM a, assertM b, assertM c, assertM d]) \<sigma>"

text \<open>The three parts of \<open>visit_Module\<close> around the loop over \<open>_defered\<close>.\<close>

definition visit_Module_enter :: "nid \<Rightarrow> stmt list \<Rightarrow> unit M" where
  "visit_Module_enter n body \<sigma> =
     bnd (modify (\<lambda>s. s\<lparr>module := Some n\<rparr>)) (\<lambda>_.
     bnd (push_scope (n, SModule) (collect_locals_Module body)) (\<lambda>_.
     bnd install_builtins (\<lambda>_.
     process_body visit_stmt body))) \<sigma>"

definition visit_Module_exit :: "nid \<Rightarrow> unit M" where
  "visit_Module_exit n \<sigma> =
     bnd (sanity_checks n) (\<lambda>_.
     bnd pop_scope (\<lambda>_.
     final_asserts)) \<sigma>"

definition visit_Module :: "module_node \<Rightarrow> analyzer \<Rightarrow> (pyerror + unit \<times> analyzer) option" where
  "visit_Module node s = (case node of Module n body \<Rightarrow>
     (case visit_Module_enter n body s of
        Inl e \<Rightarrow> Some (Inl e)
      | Inr (_, s1) \<Rightarrow>
         (case handle_defered 0 s1 of
            None \<Rightarrow> None
          | Some (Inl e) \<Rightarrow> Some (Inl e)
          | Some (Inr (_, s2)) \<Rightarrow> Some (visit_Module_exit n s2))))"

subsection \<open>\<open>DefUseChains.__init__\<close>\<close>

text \<open>
  The table \<open>Builtins\<close> depends on the interpreter; it is a parameter: the
  names of the builtins with the type names of their values.
\<close>

definition empty_analyzer :: analyzer where
  "empty_analyzer = \<lparr>
     def_node = (\<lambda>_. StrValue []), def_users = (\<lambda>_. []), ndefs = 0,
     oset_at = (\<lambda>_. []), nosets = 0,
     layer = (\<lambda>_. []), nlayers = 0,
     chains = [], locals = (\<lambda>_. []), module = None, builtins = [], defered = [],
     definitions = [], scope_depths = [], globals = [], precomputed_locals = [],
     undefs = [], scopes = [], breaks = [], continues = [], deadcode = 0, warnings = []\<rparr>"

fun add_builtins :: "(ident \<times> string) list \<Rightarrow> analyzer \<Rightarrow> analyzer" where
  "add_builtins [] s = s"
| "add_builtins ((k, t) # kts) s =
     add_builtins kts
       (s\<lparr>def_node := (def_node s)(ndefs s := BuiltinValue k t),
          def_users := (def_users s)(ndefs s := []),
          builtins := AList.update k (ndefs s) (builtins s),
          ndefs := Suc (ndefs s)\<rparr>)"

definition DefUseChains_init :: "(ident \<times> string) list \<Rightarrow> analyzer" where
  "DefUseChains_init Builtins = add_builtins Builtins empty_analyzer"

section \<open>\<open>UseDefChains\<close>\<close>

text \<open>\<open>self.chains.setdefault(key, []).append(chain)\<close>, keys being nodes.\<close>

type_synonym usedef = "(node_ref \<times> nat list) list"



definition is_Name_node :: "node_ref \<Rightarrow> bool" where
  "is_Name_node r = (case r of NodeRef _ (IName _) \<Rightarrow> True | _ \<Rightarrow> False)"





section \<open>Basic facts about the monad\<close>

lemma bndE:
  assumes "bnd m f s = Inr (y, s')"
  obtains x s1 where "m s = Inr (x, s1)" and "f x s1 = Inr (y, s')"
  using assms by (auto simp: bnd_def split: sum.splits)

lemma not_isl_Inr:
  assumes "\<not> isl r"
  obtains x s' where "r = Inr (x, s')"
  using assms by (cases r) auto

definition is_Name :: "expr \<Rightarrow> bool" where
  "is_Name e = (case e of Name _ _ _ _ \<Rightarrow> True | _ \<Rightarrow> False)"

section \<open>Lambdas\<close>

definition lambda_module :: module_node where
  "lambda_module =
     Module 0 [Expr 1 (Lambda 2 (arguments [] [] None [] [] None [Constant 3]) (Constant 4))]"

text \<open>
  C2.  The specification splits the analysis of a lambda in two phases: the
  default values are visited where the lambda occurs, and the lambda is queued so
  that its body is visited once the module body is done.  The declaration step
  of \<open>visit_Lambda\<close> only records the \<open>Def\<close> of the lambda.  For the
  module \<open>lambda d=3: 4\<close> (the default is node 3, the body node 4) the
  analysis ends normally with no \<open>Def\<close> for the default value, none for the
  body, and an empty queue of deferred nodes, although \<open>visit_Lambda\<close> has a
  definition step and \<open>visit_Module\<close> would dispatch to it.
\<close>

theorem lambda_never_deferred:
  "(case visit_Module lambda_module (DefUseChains_init []) of
      Some (Inr (_, s)) \<Rightarrow>
        map_of (chains s) 2 \<noteq> None \<and> map_of (chains s) 3 = None \<and>
        map_of (chains s) 4 = None \<and> defered s = []
    | _ \<Rightarrow> False)"
  unfolding lambda_module_def by code_simp

section \<open>Augmented assignment to an attribute or a subscript\<close>

definition augassign_module :: module_node where
  "augassign_module =
     Module 0 [AugAssign 1 (Attribute 2 (Constant 3) ''y'' Store) (Constant 4)]"

text \<open>
  C9, as stated, fails.  For the module \<open>(3).y += 4\<close> the \<open>Def\<close> of the
  target (node 2) is not among the users of the \<open>Def\<close> of the value
  (node 4); the link goes the other way.
\<close>

theorem augassign_target_not_user_of_value:
  "(case visit_Module augassign_module (DefUseChains_init []) of
      Some (Inr (_, s)) \<Rightarrow>
        (case (map_of (chains s) 2, map_of (chains s) 4) of
           (Some target_def, Some value_def) \<Rightarrow>
              target_def \<notin> set (def_users s value_def) \<and>
              value_def \<in> set (def_users s target_def)
         | _ \<Rightarrow> False)
    | _ \<Rightarrow> False)"
  unfolding augassign_module_def by code_simp

text \<open>
  C9, amended.  For every augmented assignment whose target is not a
  \<open>Name\<close> and whose visit returns, the value is visited first, then the
  target, and the \<open>Def\<close> of the value is linked as a user of the \<open>Def\<close> of
  the target: afterwards \<open>value_def\<close> is a member of \<open>target_def.users\<close>.
  The users of the value are left as the two visits made them.
\<close>

theorem augassign_value_uses_target:
  assumes "visit_stmt (AugAssign n target v) s = Inr ((), s')" and "\<not> is_Name target"
  shows "\<exists>dvalue dtarget s1 s2.
           visit_expr v s = Inr (Some dvalue, s1) \<and>
           visit_expr target s1 = Inr (Some dtarget, s2) \<and>
           dvalue \<in> set (def_users s' dtarget) \<and>
           (dvalue \<noteq> dtarget \<longrightarrow> def_users s' dvalue = def_users s2 dvalue)"
proof -
  from assms(2) have eq: "visit_stmt (AugAssign n target v) =
      bnd (visit_expr v) (\<lambda>dvalue.
        bnd (visit_expr target) (\<lambda>dtarget. add_user_opt2 dtarget dvalue))"
    by (cases target) (simp_all add: is_Name_def)
  from assms(1) obtain dv s1 dt s2 where
    v: "visit_expr v s = Inr (dv, s1)" and t: "visit_expr target s1 = Inr (dt, s2)"
    and a: "add_user_opt2 dt dv s2 = Inr ((), s')"
    unfolding eq by (auto elim!: bndE)
  from a obtain dt' dv' where "dt = Some dt'" "dv = Some dv'"
    and "s' = s2\<lparr>def_users := (def_users s2)(dt' := oset_add dv' (def_users s2 dt'))\<rparr>"
    by (auto simp: add_user_opt2_def add_user_def modify_def raise_def split: option.splits)
  with v t show ?thesis by (auto simp: oset_add_def)
qed

theorem augassign_value_uses_target_witness:
  "\<not> is_Name (Attribute 2 (Constant 3) ''y'' Store) \<and>
   (\<exists>s' dvalue dtarget s1 s2.
      visit_stmt (AugAssign 1 (Attribute 2 (Constant 3) ''y'' Store) (Constant 4))
        empty_analyzer = Inr ((), s') \<and>
      visit_expr (Constant 4) empty_analyzer = Inr (Some dvalue, s1) \<and>
      visit_expr (Attribute 2 (Constant 3) ''y'' Store) s1 = Inr (Some dtarget, s2) \<and>
      dvalue \<in> set (def_users s' dtarget))"
proof -
  have n: "\<not> is_Name (Attribute 2 (Constant 3) ''y'' Store)"
    by (simp add: is_Name_def)
  have "\<not> isl (visit_stmt (AugAssign 1 (Attribute 2 (Constant 3) ''y'' Store) (Constant 4))
          empty_analyzer)"
    by code_simp
  then obtain x s' where
    r: "visit_stmt (AugAssign 1 (Attribute 2 (Constant 3) ''y'' Store) (Constant 4))
          empty_analyzer = Inr (x, s')"
    by (rule not_isl_Inr)
  from augassign_value_uses_target [of 1 "Attribute 2 (Constant 3) ''y'' Store" "Constant 4"
      empty_analyzer s'] r n
  show ?thesis by auto
qed

section \<open>State relations established by an operation\<close>

text \<open>
  \<open>rel R m\<close>: whenever \<open>m\<close> returns, the states before and after are related
  by \<open>R\<close>.  For a reflexive and transitive \<open>R\<close> the property is passed on by
  the combinators of the monad.
\<close>

definition rel :: "(analyzer \<Rightarrow> analyzer \<Rightarrow> bool) \<Rightarrow> 'a M \<Rightarrow> bool" where
  "rel R m \<longleftrightarrow> (\<forall>s x s'. m s = Inr (x, s') \<longrightarrow> R s s')"

definition preorder_rel :: "(analyzer \<Rightarrow> analyzer \<Rightarrow> bool) \<Rightarrow> bool" where
  "preorder_rel R \<longleftrightarrow> (\<forall>s. R s s) \<and> (\<forall>s t u. R s t \<longrightarrow> R t u \<longrightarrow> R s u)"

lemma relD: "rel R m \<Longrightarrow> m s = Inr (x, s') \<Longrightarrow> R s s'"
  by (simp add: rel_def)

lemma rel_eq: "(\<And>s. m s = m' s) \<Longrightarrow> rel R m' \<Longrightarrow> rel R m"
  by (simp add: rel_def)

lemma rel_ret: "preorder_rel R \<Longrightarrow> rel R (ret x)"
  by (simp add: rel_def ret_def preorder_rel_def)

lemma rel_raise: "rel R (raise e)"
  by (simp add: rel_def raise_def)

lemma rel_gets: "preorder_rel R \<Longrightarrow> rel R (gets f)"
  by (simp add: rel_def gets_def preorder_rel_def)


lemma rel_lift: "preorder_rel R \<Longrightarrow> rel R (lift r)"
  by (cases r) (simp_all add: rel_def lift_def ret_def raise_def preorder_rel_def)

lemma rel_bnd:
  assumes "preorder_rel R" and "rel R m" and "\<And>x. rel R (f x)"
  shows "rel R (bnd m f)"
  unfolding rel_def
proof (intro allI impI)
  fix s y s' assume "bnd m f s = Inr (y, s')"
  then obtain x s1 where "m s = Inr (x, s1)" and "f x s1 = Inr (y, s')"
    by (rule bndE)
  with assms(2,3) have "R s s1" and "R s1 s'"
    by (auto dest: relD)
  with assms(1) show "R s s'"
    unfolding preorder_rel_def by blast
qed

lemma rel_if: "(b \<Longrightarrow> rel R m) \<Longrightarrow> (\<not> b \<Longrightarrow> rel R n) \<Longrightarrow> rel R (if b then m else n)"
  by simp

lemma rel_case_option:
  "(x = None \<Longrightarrow> rel R m) \<Longrightarrow> (\<And>y. x = Some y \<Longrightarrow> rel R (f y)) \<Longrightarrow>
   rel R (case x of None \<Rightarrow> m | Some y \<Rightarrow> f y)"
  by (cases x) simp_all

lemma rel_case_list:
  "(xs = [] \<Longrightarrow> rel R m) \<Longrightarrow> (\<And>y ys. xs = y # ys \<Longrightarrow> rel R (f y ys)) \<Longrightarrow>
   rel R (case xs of [] \<Rightarrow> m | y # ys \<Rightarrow> f y ys)"
  by (cases xs) simp_all

lemma rel_case_prod:
  "(\<And>a b. p = (a, b) \<Longrightarrow> rel R (f a b)) \<Longrightarrow> rel R (case p of (a, b) \<Rightarrow> f a b)"
  by (cases p) simp

lemma rel_case_sum:
  "(\<And>a. x = Inl a \<Longrightarrow> rel R (f a)) \<Longrightarrow> (\<And>b. x = Inr b \<Longrightarrow> rel R (g b)) \<Longrightarrow>
   rel R (case x of Inl a \<Rightarrow> f a | Inr b \<Rightarrow> g b)"
  by (cases x) simp_all

lemma rel_forM:
  assumes "preorder_rel R" and "\<And>x. x \<in> set xs \<Longrightarrow> rel R (f x)"
  shows "rel R (forM xs f)"
  using assms(2) by (induction xs) (auto intro!: rel_ret rel_bnd assms(1))

lemma rel_seqM:
  assumes "preorder_rel R" and "\<And>m. m \<in> set ms \<Longrightarrow> rel R m"
  shows "rel R (seqM ms)"
  using assms(2) by (induction ms) (auto intro!: rel_ret rel_bnd assms(1))

lemma rel_whenM: "preorder_rel R \<Longrightarrow> (b \<Longrightarrow> rel R m) \<Longrightarrow> rel R (whenM b m)"
  by (rule rel_eq [OF whenM_def]) (auto intro: rel_ret)

lemma rel_ignore: "preorder_rel R \<Longrightarrow> rel R m \<Longrightarrow> rel R (ignore m)"
  by (rule rel_eq [OF ignore_def]) (auto intro: rel_ret rel_bnd)

lemma rel_top_of: "preorder_rel R \<Longrightarrow> rel R (top_of f)"
  by (rule rel_eq [OF top_of_def]) (auto intro: rel_gets rel_lift rel_bnd)

lemma rel_bottom_of: "preorder_rel R \<Longrightarrow> rel R (bottom_of f)"
  by (rule rel_eq [OF bottom_of_def]) (auto intro: rel_gets rel_lift rel_bnd)

lemmas rel_monad =
  rel_ret rel_raise rel_gets rel_lift rel_bnd rel_if rel_case_option rel_case_list
  rel_case_prod rel_case_sum rel_forM rel_seqM rel_whenM rel_ignore rel_top_of rel_bottom_of

subsection \<open>The name lookup reads the state only\<close>

lemma preorder_eq: "preorder_rel (=)"
  by (simp add: preorder_rel_def)

lemma readonly_in_globals: "rel (=) (in_globals name)"
  by (rule rel_eq [OF in_globals_def]) (rule rel_gets [OF preorder_eq])

lemma readonly_invalid_name_lookup: "rel (=) (invalid_name_lookup name scope plocals ls)"
  by (rule rel_eq [OF invalid_name_lookup_def]) (intro rel_monad preorder_eq)

lemma readonly_outer_scopes: "rel (=) (outer_scopes name base lvl rest acc)"
proof (induction name base lvl rest acc rule: outer_scopes.induct)
  case (1 name base_scope lvl acc)
  show ?case by (simp add: rel_ret preorder_eq)
next
  case (2 name base_scope lvl scope depth plocals rest acc)
  show ?case
    unfolding outer_scopes.simps
    by (intro rel_monad preorder_eq readonly_invalid_name_lookup 2) simp_all
qed

lemma readonly_looked_up_definitions: "rel (=) (looked_up_definitions name)"
  by (rule rel_eq [OF looked_up_definitions_def])
     (intro rel_monad preorder_eq readonly_in_globals readonly_invalid_name_lookup
        readonly_outer_scopes)

section \<open>Wildcards in the name lookup\<close>

text \<open>The wildcard definitions met in a list of layers, in the order of the search.\<close>

definition wildcards :: "analyzer \<Rightarrow> nat list \<Rightarrow> nat list" where
  "wildcards s ls =
     concat (map (\<lambda>l. case map_of (layer s l) ''*'' of None \<Rightarrow> [] | Some os \<Rightarrow> oset_at s os) ls)"

lemma search_defs_skip:
  "\<forall>p \<in> set pre. \<not> has_key name (layer s p) \<Longrightarrow>
   search_defs s name stars (pre @ rest) = search_defs s name (stars @ wildcards s pre) rest"
  by (induction pre arbitrary: stars) (auto simp: wildcards_def has_key_def split: option.splits)

text \<open>
  C3.  When the layers searched for \<open>name\<close> are \<open>pre @ l # post\<close> and
  \<open>l\<close> is the first of them that binds \<open>name\<close>, the lookup returns the
  definitions of \<open>name\<close> in \<open>l\<close>, prepended with the wildcard definitions of
  the layers searched before \<open>l\<close>: a layer that holds \<open>*\<close> does not stop the
  search, and its wildcards are added to the explicit binding without replacing
  it.  The state is left as it was (no \<open>Def\<close> is created, no diagnostic).
\<close>

theorem defs_wildcards_compose:
  assumes "looked_up_definitions name s = Inr (pre @ l # post, s1)"
    and "\<forall>p \<in> set pre. \<not> has_key name (layer s p)"
    and "map_of (layer s l) name = Some os"
  shows "defs node name quiet s = Inr (wildcards s pre @ oset_at s os, s)"
proof -
  from assms(1) have s1: "s = s1"
    by (rule relD [OF readonly_looked_up_definitions])
  have "search_defs s name [] (pre @ l # post) = Inl (wildcards s pre @ oset_at s os)"
    using assms(3) by (simp add: search_defs_skip [OF assms(2)])
  with assms(1) show ?thesis
    by (simp add: defs_def bnd_def gets_def ret_def s1 [symmetric])
qed

definition star_state :: analyzer where
  "star_state = empty_analyzer\<lparr>
     oset_at := (\<lambda>_. [])(0 := [7], 1 := [5]),
     layer := (\<lambda>_. [])(0 := [(''x'', 0)], 1 := [(''*'', 1)]),
     definitions := [0, 1], scope_depths := [-2], globals := [{}],
     precomputed_locals := [{}], scopes := [(0, SModule)]\<rparr>"

theorem defs_wildcards_compose_witness:
  "defs 9 ''x'' False star_state = Inr ([5, 7], star_state)"
proof -
  have "\<not> isl (looked_up_definitions ''x'' star_state)"
    unfolding star_state_def by code_simp
  then obtain ls s1 where r: "looked_up_definitions ''x'' star_state = Inr (ls, s1)"
    by (rule not_isl_Inr)
  have "fst (projr (looked_up_definitions ''x'' star_state)) = [1] @ 0 # []"
    unfolding star_state_def by code_simp
  with r have r': "looked_up_definitions ''x'' star_state = Inr ([1] @ 0 # [], s1)"
    by simp
  have a: "\<forall>p \<in> set [1]. \<not> has_key ''x'' (layer star_state p)"
    unfolding star_state_def by code_simp
  have b: "map_of (layer star_state 0) ''x'' = Some 0"
    unfolding star_state_def by code_simp
  have c: "wildcards star_state [1] @ oset_at star_state 0 = [5, 7]"
    unfolding star_state_def by code_simp
  from defs_wildcards_compose [OF r' a b, of 9 False] c show ?thesis
    by simp
qed

section \<open>\<open>nonlocal\<close>\<close>









section \<open>The inverse chains\<close>

text \<open>\<open>d\<close> is listed under the key \<open>k\<close>.\<close>

definition ud_has :: "usedef \<Rightarrow> node_ref \<Rightarrow> nat \<Rightarrow> bool" where
  "ud_has ud k d \<longleftrightarrow> (\<exists>ds. map_of ud k = Some ds \<and> d \<in> set ds)"



text \<open>
  What a pass over the users of one chain, or over a list of chains, does to the
  entry of a key: the entry is only ever extended, and what is appended are
  chains with a user at that key.
\<close>

definition ud_step :: "analyzer \<Rightarrow> nat set \<Rightarrow> usedef \<Rightarrow> usedef \<Rightarrow> bool" where
  "ud_step s cs ud ud' \<longleftrightarrow>
     (\<forall>k. (has_key k ud \<longrightarrow> has_key k ud') \<and>
          (\<forall>d. ud_has ud k d \<longrightarrow> ud_has ud' k d) \<and>
          (\<forall>d. ud_has ud' k d \<longrightarrow> ud_has ud k d \<or>
                (d \<in> cs \<and> (\<exists>u \<in> set (def_users s d). def_node s u = k))) \<and>
          (has_key k ud' \<longrightarrow> has_key k ud \<or>
                (\<exists>d \<in> cs. (is_Name_node (def_node s d) \<and> def_node s d = k) \<or>
                   (\<exists>u \<in> set (def_users s d). def_node s u = k))))"



lemma ud_step_mono: "ud_step s cs a b \<Longrightarrow> cs \<subseteq> cs' \<Longrightarrow> ud_step s cs' a b"
  unfolding ud_step_def by (intro allI conjI impI; blast)












section \<open>\<open>del\<close>\<close>















subsection \<open>The lookup depends on the scopes only\<close>

























end
